theory Spec2Isabelle
  imports Complex_Main "HOL-Library.AList" "HOL-Library.Log_Nat"
begin

section \<open>Python values, dictionaries and pandas frames\<close>

text \<open>
  The values that occur as cells of a frame and as values of a weather record:
  \<open>None\<close>, the float \<open>nan\<close>, booleans, integers, finite floats (each the rational it
  denotes), strings, datetimes (opaque timestamps) and lists of integers, which stand for
  the values that cannot be hashed.
\<close>

datatype pyval =
    PNone
  | PNaN
  | PBool bool
  | PInt int
  | PFloat rat
  | PStr string
  | PDatetime int
  | PList "int list"

text \<open>
  A Python \<open>dict\<close> with string keys is an association list in insertion order;
  \<open>d[k] = v\<close> is \<open>AList.update k v d\<close> (an existing key keeps its place, a new one
  goes to the end), \<open>k in d\<close> is \<open>map_of d k \<noteq> None\<close> and \<open>len(d)\<close> is \<open>length d\<close>.
\<close>

type_synonym 'v dict = "(string \<times> 'v) list"

text \<open>
  A pandas \<open>Series\<close> is its \<open>dtype\<close> and its cells; a \<open>DataFrame\<close> is the length of
  its index and its labelled columns (labels may repeat, as pandas allows).
\<close>

record column =
  dtype :: string
  cells :: "pyval list"

record dataframe =
  nrows :: nat
  columns :: "(string \<times> column) list"

datatype exn =
    TypeError string
  | AttributeError string
  | ValueError string
  | KeyError string

fun str_exn :: "exn \<Rightarrow> string" where
  "str_exn (TypeError m) = m"
| "str_exn (AttributeError m) = m"
| "str_exn (ValueError m) = m"
| "str_exn (KeyError m) = m"

subsection \<open>float64 arithmetic\<close>

text \<open>
  A float64 is a finite value (the rational it denotes), an infinity or \<open>NaN\<close>; the sign
  of zero is not kept. \<open>round64\<close> rounds a rational to the nearest float64, ties to the
  even significand: 53 significant bits, the least exponent \<open>-1022\<close> (below it the
  spacing stays \<open>2 powi -1074\<close>), and infinity from \<open>2 ^ 1024\<close> on.
\<close>

datatype float64 =
    Finite rat
  | PosInf
  | NegInf
  | NaN

definition round_half_even :: "rat \<Rightarrow> int" where
  "round_half_even m =
     (let f = \<lfloor>m\<rfloor>; d = m - of_int f
      in if d < 1 / 2 then f else if 1 / 2 < d then f + 1 else if even f then f else f + 1)"

definition floor_log2 :: "rat \<Rightarrow> int" where
  \<comment> \<open>for \<open>0 < a\<close>, the \<open>e\<close> with \<open>2 powi e \<le> a < 2 powi (e + 1)\<close>\<close>
  "floor_log2 a = (if 1 \<le> a then bitlen \<lfloor>a\<rfloor> - 1 else - bitlen (\<lceil>1 / a\<rceil> - 1))"

definition round_pos :: "rat \<Rightarrow> float64" where
  \<comment> \<open>for \<open>0 < a\<close>: the multiple of the spacing at \<open>a\<close> that is nearest to \<open>a\<close>\<close>
  "round_pos a =
     (let e = max (floor_log2 a) (- 1022);
          ulp = 2 powi (e - 52);
          r = of_int (round_half_even (a / ulp)) * ulp
      in if 2 ^ 1024 \<le> r then PosInf else Finite r)"

definition round64 :: "rat \<Rightarrow> float64" where
  "round64 q =
     (if q = 0 then Finite 0
      else if 0 < q then round_pos q
      else (case round_pos (- q) of Finite r \<Rightarrow> Finite (- r) | _ \<Rightarrow> NegInf))"

definition int_to_float :: "nat \<Rightarrow> float64" where
  \<comment> \<open>a count (an int64, or the Python int \<open>len(df)\<close>) as float64\<close>
  "int_to_float k = round64 (of_nat k)"

fun fdiv :: "float64 \<Rightarrow> float64 \<Rightarrow> float64" where
  \<comment> \<open>float64 division as numpy does it: by zero it gives an infinity or \<open>NaN\<close> and
      does not raise\<close>
  "fdiv (Finite x) (Finite y) =
     (if y = 0 then (if x = 0 then NaN else if 0 < x then PosInf else NegInf)
      else round64 (x / y))"
| "fdiv (Finite x) PosInf = Finite 0"
| "fdiv (Finite x) NegInf = Finite 0"
| "fdiv PosInf (Finite y) = (if 0 \<le> y then PosInf else NegInf)"
| "fdiv NegInf (Finite y) = (if 0 \<le> y then NegInf else PosInf)"
| "fdiv x y = NaN"

definition percent :: "rat \<Rightarrow> float64" where
  \<comment> \<open>\<open>threshold*100\<close> for a float \<open>threshold\<close>\<close>
  "percent threshold = round64 (threshold * 100)"

subsection \<open>The pandas operations the checker calls\<close>

definition len_df :: "dataframe \<Rightarrow> nat" where
  \<comment> \<open>\<open>len(df)\<close>\<close>
  "len_df df = nrows df"

definition df_empty :: "dataframe \<Rightarrow> bool" where
  \<comment> \<open>\<open>df.empty\<close>: some axis has length 0\<close>
  "df_empty df = (nrows df = 0 \<or> columns df = [])"

definition labels :: "dataframe \<Rightarrow> string list" where
  \<comment> \<open>\<open>df.columns\<close>\<close>
  "labels df = map fst (columns df)"

definition isnull :: "pyval \<Rightarrow> bool" where
  "isnull v = (v = PNone \<or> v = PNaN)"

definition isnull_sum :: "column \<Rightarrow> nat" where
  \<comment> \<open>one entry of \<open>df.isnull().sum()\<close>\<close>
  "isnull_sum c = length (filter isnull (cells c))"

definition missing_fraction :: "dataframe \<Rightarrow> column \<Rightarrow> float64" where
  \<comment> \<open>one entry of \<open>df.isnull().sum() / len(df)\<close>: the count and the length are
      divided as float64; without rows this is \<open>0 / 0 = NaN\<close>\<close>
  "missing_fraction df c = fdiv (int_to_float (isnull_sum c)) (int_to_float (len_df df))"

definition exceeds :: "rat \<Rightarrow> float64 \<Rightarrow> bool" where
  \<comment> \<open>\<open>fraction > threshold\<close> for a finite \<open>threshold\<close>; every comparison with \<open>NaN\<close>
      is false\<close>
  "exceeds threshold f =
     (case f of Finite q \<Rightarrow> threshold < q | PosInf \<Rightarrow> True | NegInf \<Rightarrow> False | NaN \<Rightarrow> False)"

definition missing_values :: "dataframe \<Rightarrow> (string \<times> float64) list" where
  \<comment> \<open>\<open>df.isnull().sum() / len(df)\<close>, a Series indexed by the column labels\<close>
  "missing_values df = map (\<lambda>(l, c). (l, missing_fraction df c)) (columns df)"

definition problematic_columns :: "rat \<Rightarrow> dataframe \<Rightarrow> (string \<times> float64) list" where
  \<comment> \<open>\<open>missing_values[missing_values > threshold]\<close>\<close>
  "problematic_columns threshold df = filter (\<lambda>(l, f). exceeds threshold f) (missing_values df)"

definition to_dict :: "(string \<times> 'v) list \<Rightarrow> 'v dict" where
  \<comment> \<open>\<open>Series.to_dict()\<close>: a repeated label keeps its last value\<close>
  "to_dict xs = foldl (\<lambda>d (k, v). AList.update k v d) [] xs"

definition rows :: "dataframe \<Rightarrow> pyval list list" where
  "rows df = map (\<lambda>i. map (\<lambda>(l, c). cells c ! i) (columns df)) [0..<nrows df]"

fun num_val :: "pyval \<Rightarrow> rat option" where
  \<comment> \<open>the number that a bool, an int or a finite float denotes\<close>
  "num_val (PBool b) = Some (if b then 1 else 0)"
| "num_val (PInt i) = Some (of_int i)"
| "num_val (PFloat q) = Some q"
| "num_val v = None"

definition py_eq :: "pyval \<Rightarrow> pyval \<Rightarrow> bool" where
  \<comment> \<open>equality of two cells in a pandas hash table: Python's \<open>==\<close>, under which
      \<open>True == 1 == 1.0\<close>, and \<open>nan\<close> equal to \<open>nan\<close>\<close>
  "py_eq x y =
     (case (num_val x, num_val y) of
        (Some a, Some b) \<Rightarrow> a = b
      | (None, None) \<Rightarrow> x = y
      | _ \<Rightarrow> False)"

definition factor_eq :: "pyval \<Rightarrow> pyval \<Rightarrow> bool" where
  \<comment> \<open>two cells of a column get the same code from \<open>factorize\<close>: all missing values
      share one code\<close>
  "factor_eq x y = ((isnull x \<and> isnull y) \<or> py_eq x y)"

fun duplicated_from :: "('a \<Rightarrow> 'a \<Rightarrow> bool) \<Rightarrow> 'a list \<Rightarrow> 'a list \<Rightarrow> bool list" where
  \<comment> \<open>\<open>duplicated(keep='first')\<close>: a row is flagged when an earlier row equals it\<close>
  "duplicated_from eq seen [] = []"
| "duplicated_from eq seen (r # rs) = list_ex (\<lambda>s. eq s r) seen # duplicated_from eq (seen @ [r]) rs"

fun unhashable :: "pyval \<Rightarrow> string option" where
  "unhashable (PList xs) = Some ''list''"
| "unhashable v = None"

definition quoted :: "string \<Rightarrow> string" where
  \<comment> \<open>the text between two apostrophes\<close>
  "quoted s = [CHR 0x27] @ s @ [CHR 0x27]"

definition duplicated_sum :: "dataframe \<Rightarrow> exn + nat" where
  \<comment> \<open>\<open>df.duplicated().sum()\<close>. An empty frame has no duplicates. A frame of one column
      takes the path of \<open>Series.duplicated\<close>, whose hash table compares the cells and
      does not raise on a cell that cannot be hashed. A frame of several columns
      factorizes each column, which hashes every cell (\<open>TypeError\<close> for a list), and
      compares the rows of codes.\<close>
  "duplicated_sum df =
     (if df_empty df then Inr 0
      else case columns df of
             [(l, c)] \<Rightarrow> Inr (length (filter id (duplicated_from (list_all2 py_eq) [] (rows df))))
           | _ \<Rightarrow>
               (case List.map_filter unhashable (concat (map (\<lambda>(l, c). cells c) (columns df))) of
                  t # ts \<Rightarrow> Inl (TypeError (''unhashable type: '' @ quoted t))
                | [] \<Rightarrow>
                    Inr (length (filter id (duplicated_from (list_all2 factor_eq) [] (rows df))))))"

definition column_dtype :: "dataframe \<Rightarrow> string \<Rightarrow> exn + string" where
  \<comment> \<open>\<open>str(df[col].dtype)\<close>: a label that occurs once selects a Series; a repeated label
      selects a DataFrame, which has no \<open>dtype\<close>\<close>
  "column_dtype df col =
     (case filter (\<lambda>(l, c). l = col) (columns df) of
        [] \<Rightarrow> Inl (KeyError col)
      | [(l, c)] \<Rightarrow> Inr (dtype c)
      | _ \<Rightarrow> Inl (AttributeError
                 (quoted ''DataFrame'' @ '' object has no attribute '' @ quoted ''dtype'')))"

section \<open>DataQualityChecker\<close>

text \<open>
  The messages of the tabular checks are f-strings; a message is kept as its
  format and the values interpolated into it:
  \<^item> \<open>No_data_provided\<close>: "No data provided"
  \<^item> \<open>Columns_with_more_than p ls\<close>: "Columns with more than p% missing values: ls"
  \<^item> \<open>Duplicate_rows_found n\<close>: "Number of duplicate rows found: n"
  \<^item> \<open>Data_type_mismatches_found n\<close>: "Data type mismatches found: n"
  \<^item> \<open>Dataset_is_empty\<close>, \<open>Dataset_is_not_empty\<close>
\<close>

datatype message =
    No_data_provided
  | Columns_with_more_than float64 "string list"
  | Duplicate_rows_found nat
  | Data_type_mismatches_found nat
  | Dataset_is_empty
  | Dataset_is_not_empty

datatype mismatch =
    Column_not_found string
  | Expected_one_of "string list" string
  | Expected string string

datatype check_details =
    No_details
  | Row_count nat
  | Columns_with_issues "float64 dict"
  | Duplicate_rows nat
  | Type_mismatches "mismatch dict"

record check_result =
  passed :: bool
  message :: message
  details :: check_details

text \<open>
  \<open>self.issues\<close> is a list object that the checker appends to and that every report
  of \<open>run_all_checks\<close> refers to. The store holds such lists by address.
\<close>

type_synonym addr = nat

record store =
  next_addr :: addr
  lists :: "addr \<Rightarrow> message list"

definition empty_store :: store where
  "empty_store = \<lparr>next_addr = 0, lists = (\<lambda>a. [])\<rparr>"

record checker =
  data :: "dataframe option"
  issues :: addr

definition DataQualityChecker :: "dataframe option \<Rightarrow> store \<Rightarrow> checker \<times> store" where
  \<comment> \<open>\<open>__init__\<close>: \<open>self.data = data; self.issues = []\<close>\<close>
  "DataQualityChecker d \<sigma> =
     (\<lparr>data = d, issues = next_addr \<sigma>\<rparr>,
      \<sigma>\<lparr>next_addr := Suc (next_addr \<sigma>), lists := (lists \<sigma>)(next_addr \<sigma> := [])\<rparr>)"

definition issues_append :: "checker \<Rightarrow> message \<Rightarrow> store \<Rightarrow> store" where
  \<comment> \<open>\<open>self.issues.append(m)\<close>\<close>
  "issues_append c m \<sigma> = \<sigma>\<lparr>lists := (lists \<sigma>)(issues c := lists \<sigma> (issues c) @ [m])\<rparr>"

definition record_failure :: "checker \<Rightarrow> check_result \<Rightarrow> store \<Rightarrow> store" where
  \<comment> \<open>\<open>if not output["passed"]: self.issues.append(output["message"])\<close>\<close>
  "record_failure c out \<sigma> = (if \<not> passed out then issues_append c (message out) \<sigma> else \<sigma>)"

definition no_data :: check_result where
  "no_data = \<lparr>passed = False, message = No_data_provided, details = No_details\<rparr>"

definition check_missing_values :: "rat \<Rightarrow> checker \<Rightarrow> store \<Rightarrow> (exn + check_result) \<times> store" where
  "check_missing_values threshold c \<sigma> =
     (case data c of
        None \<Rightarrow> (Inr no_data, \<sigma>)
      | Some df \<Rightarrow>
          let problematic = problematic_columns threshold df;
              out = \<lparr>passed = (length problematic = 0),
                     message = Columns_with_more_than (percent threshold) (map fst problematic),
                     details = Columns_with_issues (to_dict problematic)\<rparr>
          in (Inr out, record_failure c out \<sigma>))"

definition check_duplicates :: "checker \<Rightarrow> store \<Rightarrow> (exn + check_result) \<times> store" where
  "check_duplicates c \<sigma> =
     (case data c of
        None \<Rightarrow> (Inr no_data, \<sigma>)
      | Some df \<Rightarrow>
          (case duplicated_sum df of
             Inl e \<Rightarrow> (Inl e, \<sigma>)
           | Inr duplicate_count \<Rightarrow>
               let out = \<lparr>passed = (duplicate_count = 0),
                          message = Duplicate_rows_found duplicate_count,
                          details = Duplicate_rows duplicate_count\<rparr>
               in (Inr out, record_failure c out \<sigma>)))"

datatype expected_dtype =
    Dtype string
  | Dtypes "string list"

fun type_mismatches ::
  "dataframe \<Rightarrow> (string \<times> expected_dtype) list \<Rightarrow> mismatch dict \<Rightarrow> exn + mismatch dict" where
  "type_mismatches df [] mismatches = Inr mismatches"
| "type_mismatches df ((col, expected_type) # rest) mismatches =
     (if col \<notin> set (labels df)
      then type_mismatches df rest (AList.update col (Column_not_found col) mismatches)
      else case column_dtype df col of
             Inl e \<Rightarrow> Inl e
           | Inr actual_type \<Rightarrow>
               (case expected_type of
                  Dtypes ts \<Rightarrow>
                    if actual_type \<notin> set ts
                    then type_mismatches df rest
                           (AList.update col (Expected_one_of ts actual_type) mismatches)
                    else type_mismatches df rest mismatches
                | Dtype t \<Rightarrow>
                    if actual_type \<noteq> t
                    then type_mismatches df rest
                           (AList.update col (Expected t actual_type) mismatches)
                    else type_mismatches df rest mismatches))"

definition check_data_types ::
  "(string \<times> expected_dtype) list \<Rightarrow> checker \<Rightarrow> store \<Rightarrow> (exn + check_result) \<times> store" where
  "check_data_types expected_types c \<sigma> =
     (case data c of
        None \<Rightarrow> (Inr no_data, \<sigma>)
      | Some df \<Rightarrow>
          (case type_mismatches df expected_types [] of
             Inl e \<Rightarrow> (Inl e, \<sigma>)
           | Inr mismatches \<Rightarrow>
               let out = \<lparr>passed = (length mismatches = 0),
                          message = Data_type_mismatches_found (length mismatches),
                          details = Type_mismatches mismatches\<rparr>
               in (Inr out, record_failure c out \<sigma>)))"

definition check_empty_dataset :: "checker \<Rightarrow> store \<Rightarrow> (exn + check_result) \<times> store" where
  "check_empty_dataset c \<sigma> =
     (case data c of
        None \<Rightarrow> (Inr \<lparr>passed = False, message = No_data_provided, details = Row_count 0\<rparr>, \<sigma>)
      | Some df \<Rightarrow>
          let is_empty = (len_df df = 0);
              out = \<lparr>passed = (\<not> is_empty),
                     message = (if is_empty then Dataset_is_empty else Dataset_is_not_empty),
                     details = Row_count (len_df df)\<rparr>
          in (Inr out, record_failure c out \<sigma>))"

record validation_report =
  validation_passed :: bool
  issues_found :: addr
  detailed_results :: "check_result dict"

definition all_passed :: "check_result dict \<Rightarrow> bool" where
  \<comment> \<open>\<open>all(check["passed"] for check in output.values())\<close>\<close>
  "all_passed output = list_all passed (map snd output)"

definition run_all_checks ::
  "(string \<times> expected_dtype) list option \<Rightarrow> rat \<Rightarrow> checker \<Rightarrow> store
     \<Rightarrow> (exn + validation_report) \<times> store" where
  \<comment> \<open>\<open>if expected_types:\<close> is false for \<open>None\<close> and for the empty dict\<close>
  "run_all_checks expected_types missing_value_threshold c \<sigma> =
     (case check_empty_dataset c \<sigma> of
        (Inl e, \<sigma>1) \<Rightarrow> (Inl e, \<sigma>1)
      | (Inr r1, \<sigma>1) \<Rightarrow>
     (case check_missing_values missing_value_threshold c \<sigma>1 of
        (Inl e, \<sigma>2) \<Rightarrow> (Inl e, \<sigma>2)
      | (Inr r2, \<sigma>2) \<Rightarrow>
     (case check_duplicates c \<sigma>2 of
        (Inl e, \<sigma>3) \<Rightarrow> (Inl e, \<sigma>3)
      | (Inr r3, \<sigma>3) \<Rightarrow>
          let output = [(''empty_dataset'', r1), (''missing_values'', r2), (''duplicates'', r3)];
              finish = (\<lambda>output' \<sigma>'.
                 (Inr \<lparr>validation_passed = all_passed output',
                       issues_found = issues c,
                       detailed_results = output'\<rparr>, \<sigma>'))
          in (case expected_types of
                None \<Rightarrow> finish output \<sigma>3
              | Some [] \<Rightarrow> finish output \<sigma>3
              | Some (x # xs) \<Rightarrow>
                  (case check_data_types (x # xs) c \<sigma>3 of
                     (Inl e, \<sigma>4) \<Rightarrow> (Inl e, \<sigma>4)
                   | (Inr r4, \<sigma>4) \<Rightarrow> finish (AList.update ''data_types'' r4 output) \<sigma>4)))))"

subsection \<open>validate_dict\<close>

datatype pytype = TStr | TInt | TFloat | TBool | TDatetime | TNoneType | TList

fun type_of :: "pyval \<Rightarrow> pytype" where
  \<comment> \<open>\<open>type(value)\<close>\<close>
  "type_of PNone = TNoneType"
| "type_of PNaN = TFloat"
| "type_of (PBool b) = TBool"
| "type_of (PInt i) = TInt"
| "type_of (PFloat q) = TFloat"
| "type_of (PStr s) = TStr"
| "type_of (PDatetime t) = TDatetime"
| "type_of (PList xs) = TList"

fun type_name :: "pytype \<Rightarrow> string" where
  \<comment> \<open>\<open>cls.__name__\<close>\<close>
  "type_name TStr = ''str''"
| "type_name TInt = ''int''"
| "type_name TFloat = ''float''"
| "type_name TBool = ''bool''"
| "type_name TDatetime = ''datetime''"
| "type_name TNoneType = ''NoneType''"
| "type_name TList = ''list''"

definition class_repr :: "pytype \<Rightarrow> string" where
  \<comment> \<open>\<open>repr(cls)\<close>\<close>
  "class_repr t =
     ''<class '' @ quoted (if t = TDatetime then ''datetime.datetime'' else type_name t) @ ''>''"

fun join :: "string \<Rightarrow> string list \<Rightarrow> string" where
  "join sep [] = []"
| "join sep [x] = x"
| "join sep (x # y # ys) = x @ sep @ join sep (y # ys)"

definition tuple_repr :: "pytype list \<Rightarrow> string" where
  \<comment> \<open>\<open>repr\<close> of a tuple of classes; a tuple of one element ends in a comma\<close>
  "tuple_repr ts =
     (case ts of
        [t] \<Rightarrow> ''('' @ class_repr t @ '',)''
      | _ \<Rightarrow> ''('' @ join '', '' (map class_repr ts) @ '')'')"

definition issubclass :: "pytype \<Rightarrow> pytype \<Rightarrow> bool" where
  \<comment> \<open>among these classes the only proper subclass is \<open>bool\<close>, of \<open>int\<close>\<close>
  "issubclass s t = (s = t \<or> (s = TBool \<and> t = TInt))"

datatype expected_type =
    Type pytype
  | Types "pytype list"

fun isinstance :: "pyval \<Rightarrow> expected_type \<Rightarrow> bool" where
  "isinstance value (Type t) = issubclass (type_of value) t"
| "isinstance value (Types ts) = list_ex (issubclass (type_of value)) ts"

fun validate_fields ::
  "pyval dict \<Rightarrow> (string \<times> expected_type) list \<Rightarrow> string dict \<Rightarrow> string dict" where
  \<comment> \<open>the loop of \<open>validate_dict\<close> over \<open>schema.items()\<close>, \<open>errors\<close> as accumulator\<close>
  "validate_fields data_dict [] errors = errors"
| "validate_fields data_dict ((field, expected_type) # rest) errors =
     (case map_of data_dict field of
        None \<Rightarrow>
          validate_fields data_dict rest
            (AList.update field (''Missing required field: '' @ field) errors)
      | Some value \<Rightarrow>
          (case expected_type of
             Types ts \<Rightarrow>
               if \<not> isinstance value (Types ts)
               then validate_fields data_dict rest
                      (AList.update field
                         (''Expected type '' @ tuple_repr ts @ '', got ''
                            @ type_name (type_of value)) errors)
               else validate_fields data_dict rest errors
           | Type t \<Rightarrow>
               if \<not> isinstance value (Type t)
               then validate_fields data_dict rest
                      (AList.update field
                         (''Expected type '' @ type_name t @ '', got ''
                            @ type_name (type_of value)) errors)
               else validate_fields data_dict rest errors))"

record dict_details =
  errors :: "string dict option"
  fields_validated :: int
  fields_passed :: int

definition validate_dict ::
  "pyval dict \<Rightarrow> (string \<times> expected_type) list \<Rightarrow> bool \<times> dict_details" where
  "validate_dict data_dict schema =
     (let errs = validate_fields data_dict schema [];
          is_valid = (length errs = 0);
          dets = \<lparr>errors = (if errs \<noteq> [] then Some errs else None),
                  fields_validated = int (length schema),
                  fields_passed = int (length schema) - int (length errs)\<rparr>
      in (is_valid, dets))"

section \<open>APIValidator\<close>

text \<open>
  Python checks no parameter annotation, so an entry point can be handed any object.
  The objects told apart here are \<open>None\<close>, a \<open>dict\<close>, a \<open>DataFrame\<close> and an \<open>int\<close>.
\<close>

datatype pyobj =
    PyNone
  | PyDict "pyval dict"
  | PyFrame dataframe
  | PyInt int

fun truth :: "pyobj \<Rightarrow> exn + bool" where
  \<comment> \<open>the truth value that \<open>not x\<close> takes; a DataFrame refuses to give one\<close>
  "truth PyNone = Inr False"
| "truth (PyDict d) = Inr (d \<noteq> [])"
| "truth (PyInt i) = Inr (i \<noteq> 0)"
| "truth (PyFrame df) =
     Inl (ValueError ''The truth value of a DataFrame is ambiguous. Use a.empty, a.bool(), a.item(), a.any() or a.all().'')"

definition frame_field_error :: "dataframe \<Rightarrow> string \<Rightarrow> expected_type \<Rightarrow> string" where
  \<comment> \<open>the error of one field when \<open>data_dict\<close> is a DataFrame: \<open>field in df\<close> looks among
      the column labels, and \<open>df[field]\<close> is a Series (a DataFrame for a repeated label),
      which is an instance of none of the expected classes\<close>
  "frame_field_error df field expected =
     (if field \<notin> set (labels df) then ''Missing required field: '' @ field
      else ''Expected type ''
           @ (case expected of Types ts \<Rightarrow> tuple_repr ts | Type t \<Rightarrow> type_name t)
           @ '', got ''
           @ (case filter (\<lambda>l. l = field) (labels df) of [l] \<Rightarrow> ''Series'' | _ \<Rightarrow> ''DataFrame''))"

definition not_iterable :: "string \<Rightarrow> exn" where
  \<comment> \<open>what \<open>field not in data_dict\<close> raises for an object that is no container (the
      wording of CPython up to 3.13)\<close>
  "not_iterable cls = TypeError (''argument of type '' @ quoted cls @ '' is not iterable'')"

fun validate_dict_arg ::
  "pyobj \<Rightarrow> (string \<times> expected_type) list \<Rightarrow> exn + bool \<times> dict_details" where
  \<comment> \<open>\<open>validate_dict(data_dict, schema)\<close> for an argument that need not be a dict: the
      first round of the loop raises for \<open>None\<close> and for an int\<close>
  "validate_dict_arg (PyDict d) schema = Inr (validate_dict d schema)"
| "validate_dict_arg PyNone schema =
     (if schema = [] then Inr (validate_dict [] schema) else Inl (not_iterable ''NoneType''))"
| "validate_dict_arg (PyInt i) schema =
     (if schema = [] then Inr (validate_dict [] schema) else Inl (not_iterable ''int''))"
| "validate_dict_arg (PyFrame df) schema =
     (let errs = foldl (\<lambda>errs (field, expected).
                          AList.update field (frame_field_error df field expected) errs) [] schema
      in Inr (length errs = 0,
              \<lparr>errors = (if errs \<noteq> [] then Some errs else None),
               fields_validated = int (length schema),
               fields_passed = int (length schema) - int (length errs)\<rparr>))"

datatype weather_details =
    Error_details string
  | Validation_details dict_details

text \<open>
  A tabular entry point returns either the report of \<open>run_all_checks\<close> with
  \<open>records_validated\<close> added, or the dict
  \<open>{'validation_passed': False, 'details': d, 'records_validated': n}\<close>.
\<close>

datatype tabular_result =
    Checked validation_report nat
  | Failed string nat

fun get_validation_passed :: "tabular_result \<Rightarrow> bool" where
  \<comment> \<open>\<open>result.get('validation_passed', False)\<close>\<close>
  "get_validation_passed (Checked r n) = validation_passed r"
| "get_validation_passed (Failed d n) = False"

fun records_validated :: "tabular_result \<Rightarrow> nat" where
  "records_validated (Checked r n) = n"
| "records_validated (Failed d n) = n"

datatype stored =
    Weather_entry dict_details
  | Tabular_entry validation_report nat

record validator =
  results :: "stored dict"

definition APIValidator :: validator where
  \<comment> \<open>\<open>__init__\<close>: \<open>self.results = {}\<close>\<close>
  "APIValidator = \<lparr>results = []\<rparr>"

definition weather_schema :: "(string \<times> expected_type) list" where
  "weather_schema =
     [(''city'', Type TStr),
      (''temperature'', Types [TInt, TFloat]),
      (''humidity'', Type TInt),
      (''pressure'', Type TInt),
      (''timestamp'', Types [TStr, TDatetime]),
      (''source'', Type TStr)]"

definition validate_weather_data ::
  "pyobj \<Rightarrow> validator \<Rightarrow> store \<Rightarrow> (exn + bool \<times> weather_details) \<times> validator \<times> store" where
  \<comment> \<open>\<open>if not weather_data:\<close> stands before the \<open>try\<close>: what it raises reaches the
      caller; what \<open>validate_dict\<close> raises is caught and returned as
      \<open>(False, {'error': str(e)})\<close>\<close>
  "validate_weather_data weather_data v \<sigma> =
     (case truth weather_data of
        Inl e \<Rightarrow> (Inl e, v, \<sigma>)
      | Inr t \<Rightarrow>
          if \<not> t then (Inr (False, Error_details ''Empty or None weather data''), v, \<sigma>)
          else
            (case DataQualityChecker None \<sigma> of
               (dq_checker, \<sigma>1) \<Rightarrow>
                 (case validate_dict_arg weather_data weather_schema of
                    Inl e \<Rightarrow> (Inr (False, Error_details (str_exn e)), v, \<sigma>1)
                  | Inr (is_valid, dets) \<Rightarrow>
                      (Inr (is_valid, Validation_details dets),
                       v\<lparr>results := AList.update ''weather_data'' (Weather_entry dets) (results v)\<rparr>,
                       \<sigma>1))))"

definition validate_dataframe ::
  "string \<Rightarrow> (string \<times> expected_dtype) list \<Rightarrow> pyobj \<Rightarrow> validator \<Rightarrow> store
     \<Rightarrow> (exn + tabular_result) \<times> validator \<times> store" where
  \<comment> \<open>the common body of \<open>validate_cryptocurrencies_data\<close> and \<open>validate_posts_data\<close>,
      which differ in the key of \<open>self.results\<close> and in \<open>expected_types\<close>;
      \<open>df is None or df.empty\<close> stands before the \<open>try\<close>, and neither a dict nor an
      int has an attribute \<open>empty\<close>\<close>
  "validate_dataframe key expected_types arg v \<sigma> =
     (case arg of
        PyNone \<Rightarrow> (Inr (Failed ''Empty or None DataFrame provided'' 0), v, \<sigma>)
      | PyDict d \<Rightarrow>
          (Inl (AttributeError (quoted ''dict'' @ '' object has no attribute '' @ quoted ''empty'')),
           v, \<sigma>)
      | PyInt i \<Rightarrow>
          (Inl (AttributeError (quoted ''int'' @ '' object has no attribute '' @ quoted ''empty'')),
           v, \<sigma>)
      | PyFrame df \<Rightarrow>
          if df_empty df then (Inr (Failed ''Empty or None DataFrame provided'' 0), v, \<sigma>)
          else
            (case DataQualityChecker (Some df) \<sigma> of
               (checker, \<sigma>1) \<Rightarrow>
                 (case run_all_checks (Some expected_types) (1 / 2) checker \<sigma>1 of
                    (Inl e, \<sigma>2) \<Rightarrow> (Inr (Failed (str_exn e) 0), v, \<sigma>2)
                  | (Inr result, \<sigma>2) \<Rightarrow>
                      (Inr (Checked result (len_df df)),
                       v\<lparr>results := AList.update key (Tabular_entry result (len_df df)) (results v)\<rparr>,
                       \<sigma>2))))"

definition crypto_expected_types :: "(string \<times> expected_dtype) list" where
  "crypto_expected_types =
     [(''symbol'', Dtype ''object''),
      (''name'', Dtype ''object''),
      (''current_price'', Dtypes [''float64'', ''int64'']),
      (''market_cap'', Dtypes [''int64'', ''float64'']),
      (''market_cap_rank'', Dtypes [''int64'', ''float64'']),
      (''trading_volume_24h'', Dtypes [''int64'', ''float64'']),
      (''price_change_24h'', Dtypes [''float64'', ''int64''])]"

definition posts_expected_types :: "(string \<times> expected_dtype) list" where
  "posts_expected_types =
     [(''post_id'', Dtype ''int64''),
      (''user_id'', Dtype ''int64''),
      (''title'', Dtype ''object''),
      (''body'', Dtype ''object''),
      (''word_count'', Dtype ''int64'')]"

definition validate_cryptocurrencies_data ::
  "pyobj \<Rightarrow> validator \<Rightarrow> store \<Rightarrow> (exn + tabular_result) \<times> validator \<times> store" where
  "validate_cryptocurrencies_data =
     validate_dataframe ''cryptocurrencies_data'' crypto_expected_types"

definition validate_posts_data ::
  "pyobj \<Rightarrow> validator \<Rightarrow> store \<Rightarrow> (exn + tabular_result) \<times> validator \<times> store" where
  "validate_posts_data = validate_dataframe ''posts_data'' posts_expected_types"

datatype validation_entry =
    Weather_validation bool weather_details
  | Tabular_validation tabular_result

record all_results =
  validations :: "validation_entry dict"
  overall_passed :: bool

definition validate_all ::
  "pyobj \<Rightarrow> pyobj \<Rightarrow> pyobj \<Rightarrow> validator \<Rightarrow> store \<Rightarrow> (exn + all_results) \<times> validator \<times> store" where
  \<comment> \<open>the \<open>timestamp\<close> entry of the result is left out\<close>
  "validate_all weather_data crypto_df posts_df v \<sigma> =
     (let all0 = \<lparr>validations = [], overall_passed = True\<rparr> in
      (case (if weather_data \<noteq> PyNone
             then (case validate_weather_data weather_data v \<sigma> of
                     (Inl e, v1, \<sigma>1) \<Rightarrow> (Inl e, v1, \<sigma>1)
                   | (Inr (is_valid, dets), v1, \<sigma>1) \<Rightarrow>
                       (Inr \<lparr>validations = AList.update ''weather''
                                (Weather_validation is_valid dets) (validations all0),
                             overall_passed = (overall_passed all0 \<and> is_valid)\<rparr>, v1, \<sigma>1))
             else (Inr all0, v, \<sigma>)) of
         (Inl e, v1, \<sigma>1) \<Rightarrow> (Inl e, v1, \<sigma>1)
       | (Inr all1, v1, \<sigma>1) \<Rightarrow>
      (case (if crypto_df \<noteq> PyNone
             then (case validate_cryptocurrencies_data crypto_df v1 \<sigma>1 of
                     (Inl e, v2, \<sigma>2) \<Rightarrow> (Inl e, v2, \<sigma>2)
                   | (Inr result, v2, \<sigma>2) \<Rightarrow>
                       (Inr \<lparr>validations = AList.update ''cryptocurrencies''
                                (Tabular_validation result) (validations all1),
                             overall_passed = (overall_passed all1 \<and> get_validation_passed result)\<rparr>,
                        v2, \<sigma>2))
             else (Inr all1, v1, \<sigma>1)) of
         (Inl e, v2, \<sigma>2) \<Rightarrow> (Inl e, v2, \<sigma>2)
       | (Inr all2, v2, \<sigma>2) \<Rightarrow>
          (if posts_df \<noteq> PyNone
           then (case validate_posts_data posts_df v2 \<sigma>2 of
                   (Inl e, v3, \<sigma>3) \<Rightarrow> (Inl e, v3, \<sigma>3)
                 | (Inr result, v3, \<sigma>3) \<Rightarrow>
                     (Inr \<lparr>validations = AList.update ''posts''
                              (Tabular_validation result) (validations all2),
                           overall_passed = (overall_passed all2 \<and> get_validation_passed result)\<rparr>,
                      v3, \<sigma>3))
           else (Inr all2, v2, \<sigma>2)))))"

fun stored_passed :: "stored \<Rightarrow> bool" where
  \<comment> \<open>\<open>result.get('validation_passed', False)\<close>: the details of a weather validation
      have no such key\<close>
  "stored_passed (Weather_entry dets) = False"
| "stored_passed (Tabular_entry r n) = validation_passed r"

record summary =
  total_validations :: nat
  passed_count :: nat
  failed_count :: nat
  summary_details :: "stored dict"

fun tally :: "stored dict \<Rightarrow> summary \<Rightarrow> summary" where
  \<comment> \<open>the loop of \<open>get_validation_summary\<close>; every stored value is a dict\<close>
  "tally [] s = s"
| "tally ((key, result) # rest) s =
     (if stored_passed result
      then tally rest (s\<lparr>passed_count := passed_count s + 1\<rparr>)
      else tally rest (s\<lparr>failed_count := failed_count s + 1\<rparr>))"

definition get_validation_summary :: "validator \<Rightarrow> summary" where
  "get_validation_summary v =
     tally (results v)
       \<lparr>total_validations = length (results v), passed_count = 0, failed_count = 0,
        summary_details = results v\<rparr>"

definition clear_results :: "validator \<Rightarrow> validator" where
  "clear_results v = v\<lparr>results := []\<rparr>"

section \<open>Notions used to state the properties\<close>

text \<open>
  The messages that the failing checks of one run put into the issue log: none when no
  frame is bound, otherwise the message of every check that did not pass, in the order
  of the checks.
\<close>

definition new_issues :: "checker \<Rightarrow> check_result dict \<Rightarrow> message list" where
  "new_issues c output =
     (if data c = None then [] else map message (filter (\<lambda>r. \<not> passed r) (map snd output)))"

definition add_issues :: "checker \<Rightarrow> message list \<Rightarrow> store \<Rightarrow> store" where
  \<comment> \<open>the store after the messages \<open>ms\<close> went to the end of the checker's log\<close>
  "add_issues c ms \<sigma> = \<sigma>\<lparr>lists := (lists \<sigma>)(issues c := lists \<sigma> (issues c) @ ms)\<rparr>"

definition effect :: "checker \<Rightarrow> check_result \<Rightarrow> store \<Rightarrow> store" where
  \<comment> \<open>what one check that returned \<open>out\<close> did to the store\<close>
  "effect c out \<sigma> =
     (if data c \<noteq> None \<and> \<not> passed out then issues_append c (message out) \<sigma> else \<sigma>)"

definition flip_outcome :: "string \<Rightarrow> check_result dict \<Rightarrow> check_result dict" where
  \<comment> \<open>the same results with the outcome of the check \<open>name\<close> negated\<close>
  "flip_outcome name output =
     map (\<lambda>(k, r). if k = name then (k, r\<lparr>passed := \<not> passed r\<rparr>) else (k, r)) output"

definition retype :: "(string \<Rightarrow> string \<Rightarrow> string) \<Rightarrow> dataframe \<Rightarrow> dataframe" where
  \<comment> \<open>the same frame with the dtype of every column replaced\<close>
  "retype g df = df\<lparr>columns := map (\<lambda>(l, c). (l, c\<lparr>dtype := g l (dtype c)\<rparr>)) (columns df)\<rparr>"

definition mismatch_message :: "expected_type \<Rightarrow> pyval \<Rightarrow> string" where
  \<comment> \<open>the two f-strings of \<open>validate_dict\<close> for a value of the wrong type\<close>
  "mismatch_message e v =
     (case e of
        Types ts \<Rightarrow> ''Expected type '' @ tuple_repr ts @ '', got '' @ type_name (type_of v)
      | Type t \<Rightarrow> ''Expected type '' @ type_name t @ '', got '' @ type_name (type_of v))"

definition field_error :: "pyval dict \<Rightarrow> string \<Rightarrow> expected_type \<Rightarrow> string option" where
  \<comment> \<open>the error that one field of the schema is to get, if any\<close>
  "field_error d f e =
     (case map_of d f of
        None \<Rightarrow> Some (''Missing required field: '' @ f)
      | Some v \<Rightarrow> if isinstance v e then None else Some (mismatch_message e v))"

definition error_at :: "dict_details \<Rightarrow> string \<Rightarrow> string option" where
  \<comment> \<open>\<open>details['errors'].get(f)\<close>, nothing when \<open>errors\<close> is \<open>None\<close>\<close>
  "error_at dets f = (case errors dets of None \<Rightarrow> None | Some errs \<Rightarrow> map_of errs f)"

fun has_truth_value :: "pyobj \<Rightarrow> bool" where
  \<comment> \<open>the guard \<open>not weather_data\<close> of the weather entry point does not raise\<close>
  "has_truth_value (PyFrame df) = False"
| "has_truth_value arg = True"

fun is_frame_or_none :: "pyobj \<Rightarrow> bool" where
  \<comment> \<open>the guard \<open>df is None or df.empty\<close> of a tabular entry point does not raise\<close>
  "is_frame_or_none PyNone = True"
| "is_frame_or_none (PyFrame df) = True"
| "is_frame_or_none arg = False"

subsection \<open>Frames and records of the examples\<close>

definition frame_gaps :: dataframe where
  \<comment> \<open>\<open>pd.DataFrame({'a': [None, None]})\<close>\<close>
  "frame_gaps = \<lparr>nrows = 2, columns = [(''a'', \<lparr>dtype = ''object'', cells = [PNone, PNone]\<rparr>)]\<rparr>"

definition frame_lists :: dataframe where
  \<comment> \<open>\<open>pd.DataFrame({'a': [[1]], 'b': [1]})\<close>: a cell that cannot be hashed, in a frame
      of two columns\<close>
  "frame_lists =
     \<lparr>nrows = 1,
      columns =
        [(''a'', \<lparr>dtype = ''object'', cells = [PList [1]]\<rparr>),
         (''b'', \<lparr>dtype = ''int64'', cells = [PInt 1]\<rparr>)]\<rparr>"

definition frame_halves :: dataframe where
  \<comment> \<open>four rows, two values missing\<close>
  "frame_halves =
     \<lparr>nrows = 4,
      columns = [(''x'', \<lparr>dtype = ''object'', cells = [PNone, PNone, PStr ''a'', PStr ''b'']\<rparr>)]\<rparr>"

definition frame_thirds :: dataframe where
  \<comment> \<open>three rows, one value missing\<close>
  "frame_thirds =
     \<lparr>nrows = 3,
      columns = [(''z'', \<lparr>dtype = ''object'', cells = [PNone, PStr ''a'', PStr ''b'']\<rparr>)]\<rparr>"

definition frame_quarters :: dataframe where
  \<comment> \<open>four rows; \<open>x\<close> misses two values, \<open>y\<close> misses three\<close>
  "frame_quarters =
     \<lparr>nrows = 4,
      columns =
        [(''x'', \<lparr>dtype = ''object'', cells = [PNone, PNone, PStr ''a'', PStr ''b'']\<rparr>),
         (''y'', \<lparr>dtype = ''object'', cells = [PNone, PNone, PNone, PStr ''c'']\<rparr>)]\<rparr>"

definition frame_posts :: dataframe where
  \<comment> \<open>two well-formed posts\<close>
  "frame_posts =
     \<lparr>nrows = 2,
      columns =
        [(''post_id'', \<lparr>dtype = ''int64'', cells = [PInt 1, PInt 2]\<rparr>),
         (''user_id'', \<lparr>dtype = ''int64'', cells = [PInt 10, PInt 20]\<rparr>),
         (''title'', \<lparr>dtype = ''object'', cells = [PStr ''Title 1'', PStr ''Title 2'']\<rparr>),
         (''body'', \<lparr>dtype = ''object'', cells = [PStr ''Body text 1'', PStr ''Body text 2'']\<rparr>),
         (''word_count'', \<lparr>dtype = ''int64'', cells = [PInt 10, PInt 15]\<rparr>)]\<rparr>"

definition weather_ok :: "pyval dict" where
  "weather_ok =
     [(''city'', PStr ''London''),
      (''temperature'', PFloat (51 / 2)),
      (''humidity'', PInt 60),
      (''pressure'', PInt 1013),
      (''timestamp'', PDatetime 0),
      (''source'', PStr ''weather_api'')]"

definition report_gaps :: validation_report where
  \<comment> \<open>what \<open>run_all_checks()\<close> reports on \<open>frame_gaps\<close>\<close>
  "report_gaps =
     \<lparr>validation_passed = False, issues_found = 0,
      detailed_results =
        [(''empty_dataset'',
          \<lparr>passed = True, message = Dataset_is_not_empty, details = Row_count 2\<rparr>),
         (''missing_values'',
          \<lparr>passed = False, message = Columns_with_more_than (Finite 50) [''a''],
           details = Columns_with_issues [(''a'', Finite 1)]\<rparr>),
         (''duplicates'',
          \<lparr>passed = False, message = Duplicate_rows_found 1,
           details = Duplicate_rows 1\<rparr>)]\<rparr>"

definition report_posts :: validation_report where
  \<comment> \<open>what \<open>run_all_checks()\<close> reports on \<open>frame_posts\<close>\<close>
  "report_posts =
     \<lparr>validation_passed = True, issues_found = 0,
      detailed_results =
        [(''empty_dataset'',
          \<lparr>passed = True, message = Dataset_is_not_empty, details = Row_count 2\<rparr>),
         (''missing_values'',
          \<lparr>passed = True, message = Columns_with_more_than (Finite 50) [],
           details = Columns_with_issues []\<rparr>),
         (''duplicates'',
          \<lparr>passed = True, message = Duplicate_rows_found 0,
           details = Duplicate_rows 0\<rparr>)]\<rparr>"

definition frame_empty :: dataframe where
  \<comment> \<open>\<open>pd.DataFrame()\<close>\<close>
  "frame_empty = \<lparr>nrows = 0, columns = []\<rparr>"

definition details_ok :: dict_details where
  \<comment> \<open>the details of a record with all six weather fields well typed\<close>
  "details_ok = \<lparr>errors = None, fields_validated = 6, fields_passed = 6\<rparr>"

definition checker0 :: "dataframe option \<Rightarrow> checker" where
  \<comment> \<open>the checker that \<open>DataQualityChecker d\<close> builds in the empty store\<close>
  "checker0 d = fst (DataQualityChecker d empty_store)"

definition store0 :: store where
  "store0 = snd (DataQualityChecker None empty_store)"

definition store_after_first_run :: store where
  "store_after_first_run =
     snd (run_all_checks None (1 / 2) (checker0 (Some frame_gaps)) store0)"

definition store_after_second_run :: store where
  "store_after_second_run =
     snd (run_all_checks None (1 / 2) (checker0 (Some frame_gaps)) store_after_first_run)"

section \<open>Auxiliary facts\<close>

lemmas check_defs = check_empty_dataset_def check_missing_values_def check_duplicates_def
  check_data_types_def record_failure_def no_data_def

lemmas example_defs = checker0_def store0_def DataQualityChecker_def empty_store_def

lemma bitlen_pos: "0 < x \<Longrightarrow> 1 \<le> bitlen x"
  using bitlen_nonneg[of x] bitlen_eq_zero_iff[of x] by linarith

lemma floor_log2_le:
  assumes "0 < a"
  shows "2 powi (floor_log2 a) \<le> a"
proof (cases "1 \<le> a")
  case True
  then have pos: "0 < \<lfloor>a\<rfloor>" by linarith
  from bitlen_bounds[OF pos] have "2 ^ nat (bitlen \<lfloor>a\<rfloor> - 1) \<le> \<lfloor>a\<rfloor>" by simp
  then have "(of_int (2 ^ nat (bitlen \<lfloor>a\<rfloor> - 1)) :: rat) \<le> of_int \<lfloor>a\<rfloor>"
    by (simp only: of_int_le_iff)
  also have "\<dots> \<le> a" by simp
  finally have "(2::rat) ^ nat (bitlen \<lfloor>a\<rfloor> - 1) \<le> a" by simp
  moreover from bitlen_pos[OF pos] have "(2::rat) powi (bitlen \<lfloor>a\<rfloor> - 1) = 2 ^ nat (bitlen \<lfloor>a\<rfloor> - 1)"
    by (simp add: power_int_nonneg_exp)
  ultimately show ?thesis using True by (simp add: floor_log2_def)
next
  case False
  define x where "x = \<lceil>1 / a\<rceil> - 1"
  from False assms have "1 < 1 / a" by simp
  then have "1 < \<lceil>1 / a\<rceil>" by linarith
  then have pos: "0 < x" by (simp add: x_def)
  from bitlen_bounds[OF pos] have "x < 2 ^ nat (bitlen x)" by simp
  then have "\<lceil>1 / a\<rceil> \<le> 2 ^ nat (bitlen x)" by (simp add: x_def)
  then have "(of_int \<lceil>1 / a\<rceil> :: rat) \<le> of_int (2 ^ nat (bitlen x))"
    by (simp only: of_int_le_iff)
  then have "1 / a \<le> 2 ^ nat (bitlen x)" by (simp add: ceiling_le_iff)
  with assms have "1 / 2 ^ nat (bitlen x) \<le> a"
    by (simp add: field_simps)
  moreover from bitlen_pos[OF pos] have "(2::rat) powi (- bitlen x) = 1 / 2 ^ nat (bitlen x)"
    by (simp add: power_int_minus_divide power_int_nonneg_exp)
  ultimately show ?thesis using False by (simp add: floor_log2_def x_def)
qed

lemma round_half_even_of_int: "round_half_even (of_int z) = z"
  by (simp add: round_half_even_def)

lemma round_half_even_ge: "1 \<le> m \<Longrightarrow> 1 \<le> round_half_even m"
proof -
  assume "1 \<le> m"
  then have "1 \<le> \<lfloor>m\<rfloor>" by linarith
  then show ?thesis by (simp add: round_half_even_def Let_def)
qed

lemma spacing_le:
  assumes "0 < a" and "2 powi (- 1074) \<le> a"
  shows "2 powi (max (floor_log2 a) (- 1022) - 52) \<le> a"
proof (cases "- 1022 \<le> floor_log2 a")
  case True
  have "(2::rat) powi (floor_log2 a - 52) \<le> 2 powi (floor_log2 a)"
    by (rule power_int_increasing) simp_all
  also have "\<dots> \<le> a" by (rule floor_log2_le[OF assms(1)])
  finally show ?thesis using True by (simp add: max_def)
next
  case False
  then have "max (floor_log2 a) (- 1022) - 52 = - 1074" by (simp add: max_def)
  with assms(2) show ?thesis by (simp only:)
qed

lemma exceeds_zero_round_pos:
  assumes "0 < a" and "2 powi (- 1074) \<le> a"
  shows "exceeds 0 (round_pos a)"
proof -
  define ulp :: rat where "ulp = 2 powi (max (floor_log2 a) (- 1022) - 52)"
  have pos: "0 < ulp" by (simp add: ulp_def)
  have "ulp \<le> a" unfolding ulp_def by (rule spacing_le[OF assms])
  with pos have "1 \<le> a / ulp" by (simp add: field_simps)
  then have "1 \<le> round_half_even (a / ulp)" by (rule round_half_even_ge)
  then have "0 < (of_int (round_half_even (a / ulp)) :: rat)" by simp
  with pos have "0 < of_int (round_half_even (a / ulp)) * ulp" by simp
  then show ?thesis
    by (simp add: round_pos_def Let_def exceeds_def ulp_def)
qed

lemma round_pos_of_nat:
  assumes "0 < n" and "n < 2 ^ 53"
  shows "round_pos (of_nat n) = Finite (of_nat n)"
proof -
  define a :: rat where "a = of_nat n"
  define e where "e = max (floor_log2 a) (- 1022)"
  have apos: "0 < a" using assms(1) by (simp add: a_def)
  have "(of_nat n :: rat) < of_nat (2 ^ 53)" using assms(2) by (simp only: of_nat_less_iff)
  then have alt: "a < 2 powi 53" by (simp add: a_def)
  have "(2::rat) powi floor_log2 a \<le> a" by (rule floor_log2_le[OF apos])
  with alt have "(2::rat) powi floor_log2 a < 2 powi 53" by simp
  then have "floor_log2 a < 53" by (rule power_int_le_imp_less_exp[rotated]) simp_all
  then have e: "e \<le> 52" by (simp add: e_def)
  define u :: rat where "u = 2 powi (e - 52)"
  from e have p: "u = 1 / 2 ^ nat (52 - e)"
    using power_int_minus_divide[of "2::rat" "52 - e"] by (simp add: u_def power_int_nonneg_exp)
  then have m: "a / u = of_int (int n * 2 ^ nat (52 - e))"
    by (simp add: a_def)
  have "of_int (round_half_even (a / u)) * u = (of_int (int n * 2 ^ nat (52 - e)) :: rat) * u"
    by (simp only: m round_half_even_of_int)
  also have "\<dots> = a" by (simp add: p a_def)
  finally have r: "of_int (round_half_even (a / u)) * u = a" .
  have "a < 2 ^ 1024"
  proof -
    have "(2::rat) powi 53 \<le> 2 powi 1024" by (rule power_int_increasing) simp_all
    with alt show ?thesis by simp
  qed
  with r show ?thesis
    by (simp add: round_pos_def Let_def e_def[symmetric] a_def[symmetric] u_def[symmetric])
qed

lemma int_to_float_exact: "n < 2 ^ 53 \<Longrightarrow> int_to_float n = Finite (of_nat n)"
  by (cases "n = 0") (simp_all add: int_to_float_def round64_def round_pos_of_nat)

lemma isnull_sum_le: "isnull_sum c \<le> length (cells c)"
  by (simp add: isnull_sum_def)

lemma missing_fraction_rounds:
  assumes "0 < nrows df" and "nrows df < 2 ^ 53" and "length (cells c) = nrows df"
  shows "missing_fraction df c = round64 (of_nat (isnull_sum c) / of_nat (nrows df))"
proof -
  from isnull_sum_le[of c] assms have "isnull_sum c < 2 ^ 53" by simp
  with assms show ?thesis
    by (simp add: missing_fraction_def len_df_def int_to_float_exact)
qed

lemma exceeds_zero_fraction:
  assumes "0 < nrows df" and "nrows df < 2 ^ 53" and "length (cells c) = nrows df"
  shows "exceeds 0 (missing_fraction df c) = (\<exists>v\<in>set (cells c). isnull v)"
proof (cases "isnull_sum c = 0")
  case True
  then have "\<not> (\<exists>v\<in>set (cells c). isnull v)"
    by (simp add: isnull_sum_def filter_empty_conv)
  with True show ?thesis
    by (simp add: missing_fraction_rounds[OF assms] round64_def exceeds_def)
next
  case False
  define a :: rat where "a = of_nat (isnull_sum c) / of_nat (nrows df)"
  from False have k: "1 \<le> (of_nat (isnull_sum c) :: rat)" by simp
  from assms(1) have n: "0 < (of_nat (nrows df) :: rat)" by simp
  have "(of_nat (nrows df) :: rat) < of_nat (2 ^ 53)"
    using assms(2) by (simp only: of_nat_less_iff)
  then have n53: "(of_nat (nrows df) :: rat) \<le> 2 ^ 53" by simp
  from k n have apos: "0 < a" by (simp add: a_def)
  have "(2::rat) powi (- 1074) \<le> 2 powi (- 53)" by (rule power_int_increasing) simp_all
  also have "\<dots> = 1 / 2 ^ 53" by (simp add: power_int_minus_divide)
  also from n n53 have "\<dots> \<le> 1 / of_nat (nrows df)" by (simp add: field_simps)
  also from k n have "\<dots> \<le> a" by (simp add: a_def divide_right_mono)
  finally have low: "2 powi (- 1074) \<le> a" .
  from False have "\<exists>v\<in>set (cells c). isnull v"
    by (simp add: isnull_sum_def filter_empty_conv)
  moreover from apos have "round64 a = round_pos a" by (simp add: round64_def)
  ultimately show ?thesis
    using exceeds_zero_round_pos[OF apos low]
    by (simp add: missing_fraction_rounds[OF assms] a_def)
qed

lemma round64_eval:
  "0 < q \<Longrightarrow> floor_log2 q = e \<Longrightarrow> - 1022 \<le> e \<Longrightarrow>
   round_half_even (q / 2 powi (e - 52)) = m \<Longrightarrow> of_int m * 2 powi (e - 52) = r \<Longrightarrow>
   r < 2 ^ 1024 \<Longrightarrow> round64 q = Finite r"
  by (simp add: round64_def round_pos_def Let_def max_def)

lemma round64_zero: "round64 0 = Finite 0"
  by (simp add: round64_def)

lemma round64_one: "round64 1 = Finite 1"
  using int_to_float_exact[of 1] by (simp add: int_to_float_def)

lemma round64_fifty: "round64 50 = Finite 50"
  using int_to_float_exact[of 50] by (simp add: int_to_float_def)

lemma round64_half: "round64 (1 / 2) = Finite (1 / 2)"
proof (rule round64_eval[where e = "- 1" and m = 4503599627370496])
  show "floor_log2 (1 / 2) = - 1" by code_simp
  show "round_half_even (1 / 2 / 2 powi (- 1 - 52)) = 4503599627370496" by code_simp
qed simp_all

lemma round64_three_quarters: "round64 (3 / 4) = Finite (3 / 4)"
proof (rule round64_eval[where e = "- 1" and m = 6755399441055744])
  show "floor_log2 (3 / 4) = - 1" by code_simp
  show "round_half_even (3 / 4 / 2 powi (- 1 - 52)) = 6755399441055744" by code_simp
qed simp_all

lemma round64_third: "round64 (1 / 3) = Finite (6004799503160661 / 18014398509481984)"
proof (rule round64_eval[where e = "- 2" and m = 6004799503160661])
  show "floor_log2 (1 / 3) = - 2" by code_simp
  show "round_half_even (1 / 3 / 2 powi (- 2 - 52)) = 6004799503160661" by code_simp
qed simp_all

lemma percent_half: "percent (1 / 2) = Finite 50"
  by (simp add: percent_def round64_fifty)

lemma percent_third:
  "percent (6004799503160661 / 18014398509481984) = Finite (2345624805922133 / 70368744177664)"
  unfolding percent_def
proof (rule round64_eval[where e = 5 and m = 4691249611844266])
  show "floor_log2 (6004799503160661 / 18014398509481984 * 100) = 5" by code_simp
  show "round_half_even (6004799503160661 / 18014398509481984 * 100 / 2 powi (5 - 52)) =
      4691249611844266"
    by code_simp
qed simp_all

lemmas fraction_defs = problematic_columns_def missing_values_def missing_fraction_rounds
  isnull_sum_def isnull_def exceeds_def round64_zero round64_one round64_half
  round64_three_quarters round64_third

lemma len_gaps: "len_df frame_gaps = 2"
  by (simp add: len_df_def frame_gaps_def)

lemma problematic_gaps: "problematic_columns (1 / 2) frame_gaps = [(''a'', Finite 1)]"
  by (simp add: frame_gaps_def fraction_defs)

lemma duplicated_gaps: "duplicated_sum frame_gaps = Inr 1"
  by code_simp

lemma len_posts: "len_df frame_posts = 2"
  by (simp add: len_df_def frame_posts_def)

lemma problematic_posts: "problematic_columns (1 / 2) frame_posts = []"
  by (simp add: frame_posts_def fraction_defs)

lemma duplicated_posts: "duplicated_sum frame_posts = Inr 0"
  by code_simp

lemma len_lists: "len_df frame_lists = 1"
  by (simp add: len_df_def frame_lists_def)

lemma problematic_lists: "problematic_columns (1 / 2) frame_lists = []"
  by (simp add: frame_lists_def fraction_defs)

lemma duplicated_lists:
  "duplicated_sum frame_lists = Inl (TypeError (''unhashable type: '' @ quoted ''list''))"
  by code_simp

lemma check_empty_dataset_effect:
  "check_empty_dataset c \<sigma> = (res, \<sigma>') \<Longrightarrow> \<exists>out. res = Inr out \<and> \<sigma>' = effect c out \<sigma>"
  by (auto simp: check_defs effect_def Let_def split: option.splits)

lemma check_missing_values_effect:
  "check_missing_values t c \<sigma> = (res, \<sigma>') \<Longrightarrow> \<exists>out. res = Inr out \<and> \<sigma>' = effect c out \<sigma>"
  by (auto simp: check_defs effect_def Let_def split: option.splits)

lemma check_duplicates_effect:
  "check_duplicates c \<sigma> = (res, \<sigma>') \<Longrightarrow>
     (case res of Inl e \<Rightarrow> \<sigma>' = \<sigma> | Inr out \<Rightarrow> \<sigma>' = effect c out \<sigma>)"
  by (auto simp: check_defs effect_def Let_def split: option.splits sum.splits)

lemma check_data_types_effect:
  "check_data_types et c \<sigma> = (res, \<sigma>') \<Longrightarrow>
     (case res of Inl e \<Rightarrow> \<sigma>' = \<sigma> | Inr out \<Rightarrow> \<sigma>' = effect c out \<sigma>)"
  by (auto simp: check_defs effect_def Let_def split: option.splits sum.splits)

lemma check_empty_dataset_indep:
  "fst (check_empty_dataset c \<sigma>) = fst (check_empty_dataset c \<tau>)"
  by (auto simp: check_defs Let_def split: option.splits)

lemma check_missing_values_indep:
  "fst (check_missing_values t c \<sigma>) = fst (check_missing_values t c \<tau>)"
  by (auto simp: check_defs Let_def split: option.splits)

lemma check_duplicates_indep:
  "fst (check_duplicates c \<sigma>) = fst (check_duplicates c \<tau>)"
  by (auto simp: check_defs Let_def split: option.splits sum.splits)

lemma check_data_types_indep:
  "fst (check_data_types et c \<sigma>) = fst (check_data_types et c \<tau>)"
  by (auto simp: check_defs Let_def split: option.splits sum.splits)

lemma run_all_checks_indep:
  "fst (run_all_checks et t c \<sigma>) = fst (run_all_checks et t c \<tau>)"
proof -
  define R1 where "R1 = fst (check_empty_dataset c \<tau>)"
  define R2 where "R2 = fst (check_missing_values t c \<tau>)"
  define R3 where "R3 = fst (check_duplicates c \<tau>)"
  define R4 where "R4 = (\<lambda>xs. fst (check_data_types xs c \<tau>))"
  have 1: "\<And>s. fst (check_empty_dataset c s) = R1"
    unfolding R1_def by (rule check_empty_dataset_indep)
  have 2: "\<And>s. fst (check_missing_values t c s) = R2"
    unfolding R2_def by (rule check_missing_values_indep)
  have 3: "\<And>s. fst (check_duplicates c s) = R3"
    unfolding R3_def by (rule check_duplicates_indep)
  have 4: "\<And>s xs. fst (check_data_types xs c s) = R4 xs"
    unfolding R4_def by (rule check_data_types_indep)
  show ?thesis
    unfolding run_all_checks_def
    by (simp add: case_prod_beta Let_def 1 2 3 4 split: sum.splits option.splits list.splits)
qed

lemma run_all_checks_log:
  "run_all_checks et t c \<sigma> = (Inr r, \<sigma>') \<Longrightarrow>
     \<sigma>' = add_issues c (new_issues c (detailed_results r)) \<sigma>"
  by (auto simp: run_all_checks_def Let_def effect_def add_issues_def new_issues_def
        issues_append_def
      split: prod.splits sum.splits option.splits list.splits
      dest!: check_empty_dataset_effect check_missing_values_effect check_duplicates_effect
        check_data_types_effect)

lemma run_all_checks_report:
  "run_all_checks et t c \<sigma> = (Inr r, \<sigma>') \<Longrightarrow>
     validation_passed r = all_passed (detailed_results r) \<and> issues_found r = issues c"
  by (auto simp: run_all_checks_def Let_def
      split: prod.splits sum.splits option.splits list.splits)

lemma run_all_checks_keys:
  "run_all_checks et t c \<sigma> = (Inr r, \<sigma>') \<Longrightarrow>
     map fst (detailed_results r) =
       [''empty_dataset'', ''missing_values'', ''duplicates'']
       @ (case et of None \<Rightarrow> [] | Some [] \<Rightarrow> [] | Some (x # xs) \<Rightarrow> [''data_types''])"
  by (auto simp: run_all_checks_def Let_def
      split: prod.splits sum.splits option.splits list.splits)

lemma run_all_checks_again:
  assumes "run_all_checks et t c \<sigma> = (Inr r, \<sigma>1)"
  shows "run_all_checks et t c \<sigma>1 =
           (Inr r, add_issues c (new_issues c (detailed_results r)) \<sigma>1)"
proof -
  have "fst (run_all_checks et t c \<sigma>1) = Inr r"
    using run_all_checks_indep[of et t c \<sigma>1 \<sigma>] assms by simp
  then obtain \<sigma>2 where *: "run_all_checks et t c \<sigma>1 = (Inr r, \<sigma>2)"
    by (cases "run_all_checks et t c \<sigma>1") auto
  from run_all_checks_log[OF *] * show ?thesis by simp
qed

lemma run_gaps:
  "run_all_checks None (1 / 2) (checker0 (Some frame_gaps)) store0 =
     (Inr report_gaps,
      add_issues (checker0 (Some frame_gaps))
        [Columns_with_more_than (Finite 50) [''a''], Duplicate_rows_found 1] store0)"
  by (simp add: run_all_checks_def check_defs len_gaps problematic_gaps duplicated_gaps
      percent_half to_dict_def example_defs all_passed_def add_issues_def issues_append_def
      Let_def report_gaps_def)

lemma retype_nrows: "nrows (retype g df) = nrows df"
  by (simp add: retype_def)

lemma retype_len_df: "len_df (retype g df) = len_df df"
  by (simp add: len_df_def retype_def)

lemma retype_df_empty: "df_empty (retype g df) = df_empty df"
  by (simp add: df_empty_def retype_def)

lemma retype_rows: "rows (retype g df) = rows df"
  by (simp add: rows_def retype_def comp_def case_prod_beta)

lemma retype_cells:
  "map (\<lambda>(l, c). cells c) (columns (retype g df)) = map (\<lambda>(l, c). cells c) (columns df)"
  by (simp add: retype_def comp_def case_prod_beta)

lemma retype_missing_fraction:
  "missing_fraction (retype g df) (c\<lparr>dtype := d\<rparr>) = missing_fraction df c"
  by (simp add: missing_fraction_def retype_len_df isnull_sum_def)

lemma retype_missing_values: "missing_values (retype g df) = missing_values df"
proof -
  have cols: "columns (retype g df) = map (\<lambda>(l, c). (l, c\<lparr>dtype := g l (dtype c)\<rparr>)) (columns df)"
    by (simp add: retype_def)
  show ?thesis
    unfolding missing_values_def cols
    by (simp add: comp_def case_prod_beta retype_missing_fraction)
qed

lemma retype_problematic_columns:
  "problematic_columns t (retype g df) = problematic_columns t df"
  by (simp add: problematic_columns_def retype_missing_values)

lemma retype_one_column:
  "(case columns (retype g df) of [(l, c)] \<Rightarrow> A | _ \<Rightarrow> B) =
   (case columns df of [(l, c)] \<Rightarrow> A | _ \<Rightarrow> B)"
  by (simp add: retype_def split: list.splits prod.splits)

lemma retype_duplicated_sum: "duplicated_sum (retype g df) = duplicated_sum df"
  unfolding duplicated_sum_def
  by (simp only: retype_df_empty retype_cells retype_rows retype_one_column)

lemma retype_record_failure:
  "record_failure (c\<lparr>data := d\<rparr>) out \<sigma> = record_failure c out \<sigma>"
  by (simp add: record_failure_def issues_append_def)

lemma retype_check_empty:
  "check_empty_dataset (c\<lparr>data := map_option (retype g) (data c)\<rparr>) \<sigma> = check_empty_dataset c \<sigma>"
  by (cases "data c")
     (simp_all add: check_empty_dataset_def retype_len_df retype_record_failure Let_def)

lemma retype_check_missing:
  "check_missing_values t (c\<lparr>data := map_option (retype g) (data c)\<rparr>) \<sigma> = check_missing_values t c \<sigma>"
  by (cases "data c")
     (simp_all add: check_missing_values_def retype_problematic_columns retype_record_failure Let_def)

lemma retype_check_duplicates:
  "check_duplicates (c\<lparr>data := map_option (retype g) (data c)\<rparr>) \<sigma> = check_duplicates c \<sigma>"
  by (cases "data c")
     (simp_all add: check_duplicates_def retype_duplicated_sum retype_record_failure Let_def
        split: sum.splits)

lemma retype_run_all_checks:
  "run_all_checks None t (c\<lparr>data := map_option (retype g) (data c)\<rparr>) \<sigma> = run_all_checks None t c \<sigma>"
  unfolding run_all_checks_def
  by (simp only: retype_check_empty retype_check_missing retype_check_duplicates)
     (simp add: Let_def split: prod.splits sum.splits)

lemma run_posts:
  "run_all_checks None (1 / 2) (checker0 (Some frame_posts)) store0 = (Inr report_posts, store0)"
  by (simp add: run_all_checks_def check_defs len_posts problematic_posts duplicated_posts
      percent_half to_dict_def example_defs all_passed_def issues_append_def
      Let_def report_posts_def)

lemma flip_outcome_absent:
  "name \<notin> set (map fst outs) \<Longrightarrow> flip_outcome name outs = outs"
  by (induction outs) (auto simp: flip_outcome_def)

lemma all_passed_Cons: "all_passed ((k, res) # outs) = (passed res \<and> all_passed outs)"
  by (simp add: all_passed_def)

lemma flip_outcome_Cons:
  "flip_outcome name ((k, res) # outs) =
     (if k = name then (k, res\<lparr>passed := \<not> passed res\<rparr>) else (k, res)) # flip_outcome name outs"
  by (simp add: flip_outcome_def)

lemma all_passed_others:
  "name \<notin> set (map fst outs) \<Longrightarrow> (\<forall>(k, res)\<in>set outs. k \<noteq> name \<longrightarrow> passed res) \<Longrightarrow>
     all_passed outs"
  by (induction outs) (auto simp: all_passed_def)

lemma flip_outcome_flips:
  "distinct (map fst outs) \<Longrightarrow> name \<in> set (map fst outs) \<Longrightarrow>
   (\<forall>(k, res)\<in>set outs. k \<noteq> name \<longrightarrow> passed res) \<Longrightarrow>
     all_passed (flip_outcome name outs) = (\<not> all_passed outs)"
proof (induction outs)
  case Nil
  then show ?case by simp
next
  case (Cons x outs)
  obtain k res where x: "x = (k, res)" by (cases x)
  show ?case
  proof (cases "k = name")
    case True
    with Cons.prems x have absent: "name \<notin> set (map fst outs)" by simp
    from Cons.prems(3) have "\<forall>(k, res)\<in>set outs. k \<noteq> name \<longrightarrow> passed res" by simp
    with absent have "all_passed outs" by (rule all_passed_others)
    with x True show ?thesis
      by (simp add: all_passed_Cons flip_outcome_Cons flip_outcome_absent[OF absent])
  next
    case False
    with Cons.prems x have p: "passed res" and n: "name \<in> set (map fst outs)"
      and d: "distinct (map fst outs)"
      and o: "\<forall>(k, res)\<in>set outs. k \<noteq> name \<longrightarrow> passed res"
      by auto
    from Cons.IH[OF d n o] x False p show ?thesis
      by (simp add: all_passed_Cons flip_outcome_Cons)
  qed
qed

lemma run_all_checks_distinct:
  "run_all_checks et t c \<sigma> = (Inr r, \<sigma>') \<Longrightarrow> distinct (map fst (detailed_results r))"
  by (drule run_all_checks_keys) (simp split: option.splits list.splits)

lemma new_issues_empty:
  "new_issues c outs = [] \<longleftrightarrow> (data c = None \<or> all_passed outs)"
  by (auto simp: new_issues_def all_passed_def filter_empty_conv list_all_iff)

lemma lists_add_issues:
  "lists (add_issues c ms \<sigma>) (issues c) = lists \<sigma> (issues c) @ ms"
  by (simp add: add_issues_def)

lemma new_issues_gaps:
  "new_issues (checker0 (Some frame_gaps)) (detailed_results report_gaps) =
     [Columns_with_more_than (Finite 50) [''a''], Duplicate_rows_found 1]"
  by (simp add: new_issues_def report_gaps_def checker0_def DataQualityChecker_def)

lemma issues_checker0: "issues (checker0 d) = 0"
  by (simp add: checker0_def DataQualityChecker_def empty_store_def)

lemma lists_store0: "lists store0 a = []"
  by (simp add: store0_def DataQualityChecker_def empty_store_def)

lemma problematic_labels:
  "map fst (filter (\<lambda>(l, f). exceeds t f) (map (\<lambda>(l, c). (l, missing_fraction df c)) xs)) =
   map fst (filter (\<lambda>(l, c). exceeds t (missing_fraction df c)) xs)"
  by (induction xs) auto

lemma problematic_columns_labels:
  "map fst (problematic_columns t df) =
     map fst (filter (\<lambda>(l, c). exceeds t (missing_fraction df c)) (columns df))"
  unfolding problematic_columns_def missing_values_def by (rule problematic_labels)

lemma problematic_columns_empty:
  "(length (problematic_columns t df) = 0) =
     (\<forall>(l, c)\<in>set (columns df). \<not> exceeds t (missing_fraction df c))"
proof -
  have "(length (problematic_columns t df) = 0) = (map fst (problematic_columns t df) = [])"
    by simp
  also have "\<dots> = (filter (\<lambda>(l, c). exceeds t (missing_fraction df c)) (columns df) = [])"
    by (simp only: problematic_columns_labels map_is_Nil_conv)
  also have "\<dots> = (\<forall>(l, c)\<in>set (columns df). \<not> exceeds t (missing_fraction df c))"
    by (auto simp: filter_empty_conv)
  finally show ?thesis .
qed

lemma fraction_x:
  "missing_fraction frame_quarters
     \<lparr>dtype = ''object'', cells = [PNone, PNone, PStr ''a'', PStr ''b'']\<rparr> = Finite (1 / 2)"
  by (simp add: frame_quarters_def fraction_defs)

lemma fraction_y:
  "missing_fraction frame_quarters
     \<lparr>dtype = ''object'', cells = [PNone, PNone, PNone, PStr ''c'']\<rparr> = Finite (3 / 4)"
  by (simp add: frame_quarters_def fraction_defs)

lemma fraction_z:
  "missing_fraction frame_thirds
     \<lparr>dtype = ''object'', cells = [PNone, PStr ''a'', PStr ''b'']\<rparr> =
     Finite (6004799503160661 / 18014398509481984)"
  by (simp add: frame_thirds_def fraction_defs)

lemma problematic_quarters:
  "problematic_columns (1 / 2) frame_quarters = [(''y'', Finite (3 / 4))]"
  by (simp add: frame_quarters_def fraction_defs)

lemma problematic_halves: "problematic_columns (1 / 2) frame_halves = []"
  by (simp add: frame_halves_def fraction_defs)

lemma problematic_thirds:
  "problematic_columns (6004799503160661 / 18014398509481984) frame_thirds = []"
  by (simp add: frame_thirds_def fraction_defs)

lemma check_missing_quarters:
  "check_missing_values (1 / 2) (checker0 (Some frame_quarters)) store0 =
     (Inr \<lparr>passed = False, message = Columns_with_more_than (Finite 50) [''y''],
           details = Columns_with_issues [(''y'', Finite (3 / 4))]\<rparr>,
      issues_append (checker0 (Some frame_quarters)) (Columns_with_more_than (Finite 50) [''y'']) store0)"
  by (simp add: check_missing_values_def checker0_def DataQualityChecker_def
      problematic_quarters percent_half to_dict_def record_failure_def Let_def)

lemma check_missing_halves:
  "check_missing_values (1 / 2) (checker0 (Some frame_halves)) store0 =
     (Inr \<lparr>passed = True, message = Columns_with_more_than (Finite 50) [],
           details = Columns_with_issues []\<rparr>,
      store0)"
  by (simp add: check_missing_values_def checker0_def DataQualityChecker_def
      problematic_halves percent_half to_dict_def record_failure_def Let_def)

lemma check_missing_thirds:
  "check_missing_values (6004799503160661 / 18014398509481984) (checker0 (Some frame_thirds)) store0 =
     (Inr \<lparr>passed = True, message = Columns_with_more_than (Finite (2345624805922133 / 70368744177664)) [],
           details = Columns_with_issues []\<rparr>,
      store0)"
  by (simp add: check_missing_values_def checker0_def DataQualityChecker_def
      problematic_thirds percent_third to_dict_def record_failure_def Let_def)

lemma validate_fields_step:
  "validate_fields d ((f, e) # rest) errs =
     validate_fields d rest
       (case field_error d f e of None \<Rightarrow> errs | Some m \<Rightarrow> AList.update f m errs)"
  by (cases e) (simp_all add: field_error_def mismatch_message_def split: option.splits)

lemma map_of_validate_fields:
  "distinct (map fst schema) \<Longrightarrow>
     map_of (validate_fields d schema errs) k =
       (case map_of schema k of
          None \<Rightarrow> map_of errs k
        | Some e \<Rightarrow> (case field_error d k e of None \<Rightarrow> map_of errs k | Some m \<Rightarrow> Some m))"
proof (induction schema arbitrary: errs)
  case Nil
  then show ?case by simp
next
  case (Cons x schema)
  obtain f e where x: "x = (f, e)" by (cases x)
  from Cons.prems x have d: "distinct (map fst schema)" and n: "f \<notin> set (map fst schema)"
    by simp_all
  from n have m: "map_of schema f = None" by (simp add: map_of_eq_None_iff)
  show ?case
    unfolding x validate_fields_step Cons.IH[OF d]
    using m by (auto simp: update_conv' split: option.splits)
qed

lemma map_of_Nil_iff: "distinct (map fst errs) \<Longrightarrow> (errs = []) = (\<forall>k. map_of errs k = None)"
  by (cases errs) auto

lemma distinct_validate_fields:
  "distinct (map fst errs) \<Longrightarrow> distinct (map fst (validate_fields d schema errs))"
proof (induction schema arbitrary: errs)
  case Nil
  then show ?case by simp
next
  case (Cons x schema)
  obtain f e where x: "x = (f, e)" by (cases x)
  show ?case
    unfolding x validate_fields_step
    using Cons.prems by (intro Cons.IH) (simp add: distinct_update split: option.splits)
qed

lemma tally_counts:
  "passed_count (tally rs s) = passed_count s + length (filter stored_passed (map snd rs)) \<and>
   failed_count (tally rs s) = failed_count s + length (filter (\<lambda>r. \<not> stored_passed r) (map snd rs)) \<and>
   total_validations (tally rs s) = total_validations s \<and>
   summary_details (tally rs s) = summary_details s"
  by (induction rs arbitrary: s) auto

lemma validate_weather_ok:
  "validate_weather_data (PyDict weather_ok) APIValidator empty_store =
     (Inr (True, Validation_details details_ok),
      \<lparr>results = [(''weather_data'', Weather_entry details_ok)]\<rparr>,
      snd (DataQualityChecker None empty_store))"
  by (simp add: validate_weather_data_def weather_ok_def weather_schema_def validate_dict_def
      issubclass_def APIValidator_def details_ok_def DataQualityChecker_def)

lemma validate_weather_data_no_fault:
  "has_truth_value w \<Longrightarrow> validate_weather_data w v \<sigma> \<noteq> (Inl e, v', \<sigma>')"
  by (cases w) (auto simp: validate_weather_data_def split: prod.splits sum.splits)

lemma validate_weather_data_caught:
  "truth w = Inr True \<Longrightarrow> validate_dict_arg w weather_schema = Inl e \<Longrightarrow>
     validate_weather_data w v \<sigma> =
       (Inr (False, Error_details (str_exn e)), v, snd (DataQualityChecker None \<sigma>))"
  by (cases "DataQualityChecker None \<sigma>") (simp add: validate_weather_data_def)

lemma validate_dataframe_no_fault:
  "is_frame_or_none a \<Longrightarrow> validate_dataframe key et a v \<sigma> \<noteq> (Inl e, v', \<sigma>')"
  by (cases a) (auto simp: validate_dataframe_def split: prod.splits sum.splits)

lemma validate_dataframe_caught:
  "\<not> df_empty df \<Longrightarrow>
   run_all_checks (Some et) (1 / 2) (fst (DataQualityChecker (Some df) \<sigma>))
     (snd (DataQualityChecker (Some df) \<sigma>)) = (Inl e, \<sigma>'') \<Longrightarrow>
     validate_dataframe key et (PyFrame df) v \<sigma> = (Inr (Failed (str_exn e) 0), v, \<sigma>'')"
  by (cases "DataQualityChecker (Some df) \<sigma>") (simp add: validate_dataframe_def)

lemma no_fault_returns:
  "(\<And>e v' \<sigma>'. x \<noteq> (Inl e, v', \<sigma>')) \<Longrightarrow> \<exists>r v' \<sigma>'. x = (Inr r, v', \<sigma>')"
  by (cases x; cases "fst x") auto

lemma validate_all_no_fault:
  "has_truth_value w \<Longrightarrow> is_frame_or_none a \<Longrightarrow> is_frame_or_none p \<Longrightarrow>
     validate_all w a p v \<sigma> \<noteq> (Inl e, v', \<sigma>')"
  by (auto simp: validate_all_def Let_def validate_cryptocurrencies_data_def
      validate_posts_data_def validate_weather_data_no_fault validate_dataframe_no_fault
      split: prod.splits sum.splits if_splits)

lemma run_lists_raises:
  "run_all_checks (Some crypto_expected_types) (1 / 2)
     (fst (DataQualityChecker (Some frame_lists) empty_store))
     (snd (DataQualityChecker (Some frame_lists) empty_store)) =
     (Inl (TypeError (''unhashable type: '' @ quoted ''list'')),
      snd (DataQualityChecker (Some frame_lists) empty_store))"
  by (simp add: run_all_checks_def check_defs len_lists problematic_lists duplicated_lists
      percent_half to_dict_def DataQualityChecker_def empty_store_def Let_def)

lemma weather_int_raises:
  "truth (PyInt 5) = Inr True \<and>
   validate_dict_arg (PyInt 5) weather_schema = Inl (not_iterable ''int'')"
  by (simp add: weather_schema_def)

section \<open>The properties\<close>

text \<open>
  C10: \<open>run_all_checks\<close> with the empty expected-types mapping \<open>{}\<close> returns what it returns
  with \<open>expected_types\<close> absent (\<open>None\<close>), for every checker, threshold and store: the guard
  \<open>if expected_types:\<close> tests truthiness, so the data-types check is skipped and the
  detailed results have no \<open>data_types\<close> entry.
\<close>

theorem run_all_checks_empty_schema:
  "run_all_checks (Some []) t c \<sigma> = run_all_checks None t c \<sigma> \<and>
   (\<forall>r \<sigma>'. run_all_checks (Some []) t c \<sigma> = (Inr r, \<sigma>') \<longrightarrow>
      map_of (detailed_results r) ''data_types'' = None)"
proof -
  have "run_all_checks (Some []) t c \<sigma> = run_all_checks None t c \<sigma>"
    by (simp add: run_all_checks_def Let_def split: prod.splits sum.splits)
  moreover have "map_of (detailed_results r) ''data_types'' = None"
    if "run_all_checks (Some []) t c \<sigma> = (Inr r, \<sigma>')" for r \<sigma>'
    using that
    by (auto simp: run_all_checks_def Let_def split: prod.splits sum.splits)
  ultimately show ?thesis by blast
qed

theorem run_all_checks_empty_schema_witness:
  "run_all_checks (Some []) (1 / 2) (checker0 (Some frame_gaps)) store0 =
     run_all_checks None (1 / 2) (checker0 (Some frame_gaps)) store0 \<and>
   fst (run_all_checks (Some []) (1 / 2) (checker0 (Some frame_gaps)) store0) = Inr report_gaps \<and>
   map_of (detailed_results report_gaps) ''data_types'' = None"
  using run_all_checks_empty_schema[of "1 / 2" "checker0 (Some frame_gaps)" store0] run_gaps
  by simp

text \<open>
  C9: with \<open>expected_types = None\<close>, a run that returns has run exactly the checks
  \<open>empty_dataset\<close>, \<open>missing_values\<close> and \<open>duplicates\<close>, its verdict is the conjunction of
  these three outcomes, and nothing of the result depends on the dtypes of the columns:
  replacing every dtype of the bound frame leaves the result and the store as they are.
\<close>

theorem run_all_checks_without_types:
  "run_all_checks None t (c\<lparr>data := map_option (retype g) (data c)\<rparr>) \<sigma> = run_all_checks None t c \<sigma> \<and>
   (\<forall>r \<sigma>'. run_all_checks None t c \<sigma> = (Inr r, \<sigma>') \<longrightarrow>
      map fst (detailed_results r) = [''empty_dataset'', ''missing_values'', ''duplicates''] \<and>
      map_of (detailed_results r) ''data_types'' = None \<and>
      validation_passed r = list_all passed (map snd (detailed_results r)))"
proof -
  have "map fst (detailed_results r) = [''empty_dataset'', ''missing_values'', ''duplicates''] \<and>
      map_of (detailed_results r) ''data_types'' = None \<and>
      validation_passed r = list_all passed (map snd (detailed_results r))"
    if "run_all_checks None t c \<sigma> = (Inr r, \<sigma>')" for r \<sigma>'
    using that
    by (auto simp: run_all_checks_def Let_def all_passed_def split: prod.splits sum.splits)
  with retype_run_all_checks[where t = t and c = c and g = g and \<sigma> = \<sigma>] show ?thesis by blast
qed

theorem run_all_checks_without_types_witness:
  "run_all_checks None (1 / 2)
     (checker0 (Some frame_gaps)\<lparr>data := map_option (retype (\<lambda>l d. ''int64'')) (data (checker0 (Some frame_gaps)))\<rparr>)
     store0 =
     run_all_checks None (1 / 2) (checker0 (Some frame_gaps)) store0 \<and>
   fst (run_all_checks None (1 / 2) (checker0 (Some frame_gaps)) store0) = Inr report_gaps \<and>
   map fst (detailed_results report_gaps) = [''empty_dataset'', ''missing_values'', ''duplicates''] \<and>
   validation_passed report_gaps = list_all passed (map snd (detailed_results report_gaps))"
proof -
  have a: "run_all_checks None (1 / 2)
     (checker0 (Some frame_gaps)\<lparr>data := map_option (retype (\<lambda>l d. ''int64'')) (data (checker0 (Some frame_gaps)))\<rparr>)
     store0 =
     run_all_checks None (1 / 2) (checker0 (Some frame_gaps)) store0"
    using run_all_checks_without_types[where t = "1 / 2" and c = "checker0 (Some frame_gaps)"
      and g = "\<lambda>l d. ''int64''" and \<sigma> = store0]
    by (rule conjunct1)
  have b: "fst (run_all_checks None (1 / 2) (checker0 (Some frame_gaps)) store0) = Inr report_gaps"
    by (simp add: run_gaps)
  have c: "map fst (detailed_results report_gaps) = [''empty_dataset'', ''missing_values'', ''duplicates'']"
    by (simp add: report_gaps_def)
  have d: "validation_passed report_gaps = list_all passed (map snd (detailed_results report_gaps))"
    by (simp add: report_gaps_def)
  show ?thesis by (intro conjI a b c d)
qed

text \<open>
  C2: the claim holds in its first half and fails in its second. The verdict of a run
  that returns is the conjunction of the outcomes of exactly the checks that ran. Flipping
  one outcome flips the verdict only when every other check passed: on \<open>frame_gaps\<close> the
  missing-values and the duplicates check both fail, and the verdict stays \<open>False\<close> when
  the outcome of \<open>duplicates\<close> is flipped.
\<close>

theorem flip_keeps_verdict_counterexample:
  "fst (run_all_checks None (1 / 2) (checker0 (Some frame_gaps)) store0) = Inr report_gaps \<and>
   validation_passed report_gaps = False \<and>
   all_passed (flip_outcome ''duplicates'' (detailed_results report_gaps)) = False"
  by (simp add: run_gaps) (simp add: report_gaps_def flip_outcome_def all_passed_def)

text \<open>
  C2 as amended: \<open>validation_passed\<close> is true iff every check result of \<open>detailed_results\<close>
  has \<open>passed\<close> true, and flipping the outcome of one check while all the other checks
  passed flips the verdict.
\<close>

theorem validation_passed_conjunction:
  "run_all_checks et t c \<sigma> = (Inr r, \<sigma>') \<Longrightarrow>
     validation_passed r = (\<forall>res\<in>set (map snd (detailed_results r)). passed res) \<and>
     (\<forall>name\<in>set (map fst (detailed_results r)).
        (\<forall>(k, res)\<in>set (detailed_results r). k \<noteq> name \<longrightarrow> passed res) \<longrightarrow>
        all_passed (flip_outcome name (detailed_results r)) = (\<not> validation_passed r))"
proof -
  assume run: "run_all_checks et t c \<sigma> = (Inr r, \<sigma>')"
  from run_all_checks_report[OF run] have v: "validation_passed r = all_passed (detailed_results r)"
    by simp
  then have 1: "validation_passed r = (\<forall>res\<in>set (map snd (detailed_results r)). passed res)"
    by (simp add: all_passed_def list_all_iff)
  have 2: "all_passed (flip_outcome name (detailed_results r)) = (\<not> validation_passed r)"
    if "name \<in> set (map fst (detailed_results r))"
      and "\<forall>(k, res)\<in>set (detailed_results r). k \<noteq> name \<longrightarrow> passed res" for name
    using flip_outcome_flips[OF run_all_checks_distinct[OF run] that] v by simp
  from 1 2 show ?thesis by blast
qed

theorem validation_passed_conjunction_witness:
  "run_all_checks None (1 / 2) (checker0 (Some frame_posts)) store0 = (Inr report_posts, store0) \<and>
   validation_passed report_posts \<and>
   list_all passed (map snd (detailed_results report_posts)) \<and>
   all_passed (flip_outcome ''duplicates'' (detailed_results report_posts)) = False"
proof -
  have run: "run_all_checks None (1 / 2) (checker0 (Some frame_posts)) store0 = (Inr report_posts, store0)"
    by (rule run_posts)
  note inst = validation_passed_conjunction[OF run]
  have a: "validation_passed report_posts" by (simp add: report_posts_def)
  from inst a have b: "\<forall>res\<in>set (map snd (detailed_results report_posts)). passed res"
    by blast
  then have b': "list_all passed (map snd (detailed_results report_posts))"
    by (simp add: list_all_iff)
  have k: "''duplicates'' \<in> set (map fst (detailed_results report_posts))"
    by (simp add: report_posts_def)
  have o: "\<forall>(k, res)\<in>set (detailed_results report_posts). k \<noteq> ''duplicates'' \<longrightarrow> passed res"
    by (simp add: report_posts_def)
  from inst k o a have c: "all_passed (flip_outcome ''duplicates'' (detailed_results report_posts)) = False"
    by blast
  show ?thesis by (intro conjI run a b' c)
qed

text \<open>
  C3: the claim fails for the issue log. A report does not hold a copy of the issues: its
  \<open>issues_found\<close> is the checker's own list, to which every run appends the messages of
  its failing checks. On \<open>frame_gaps\<close> both runs return the same report value, but the
  list it refers to holds two messages when the first run returns and four when the
  second returns.
\<close>

theorem repeated_run_log_counterexample:
  "fst (run_all_checks None (1 / 2) (checker0 (Some frame_gaps)) store0) = Inr report_gaps \<and>
   fst (run_all_checks None (1 / 2) (checker0 (Some frame_gaps)) store_after_first_run) =
     Inr report_gaps \<and>
   lists store_after_first_run (issues_found report_gaps) =
     [Columns_with_more_than (Finite 50) [''a''], Duplicate_rows_found 1] \<and>
   lists store_after_second_run (issues_found report_gaps) =
     [Columns_with_more_than (Finite 50) [''a''], Duplicate_rows_found 1,
      Columns_with_more_than (Finite 50) [''a''], Duplicate_rows_found 1]"
proof -
  have s1: "store_after_first_run =
      add_issues (checker0 (Some frame_gaps))
        [Columns_with_more_than (Finite 50) [''a''], Duplicate_rows_found 1] store0"
    by (simp add: store_after_first_run_def run_gaps)
  have run1: "run_all_checks None (1 / 2) (checker0 (Some frame_gaps)) store0 =
      (Inr report_gaps, store_after_first_run)"
    by (simp add: s1 run_gaps)
  have run2: "run_all_checks None (1 / 2) (checker0 (Some frame_gaps)) store_after_first_run =
      (Inr report_gaps,
       add_issues (checker0 (Some frame_gaps))
         [Columns_with_more_than (Finite 50) [''a''], Duplicate_rows_found 1] store_after_first_run)"
    using run_all_checks_again[OF run1] by (simp only: new_issues_gaps)
  have s2: "store_after_second_run =
      add_issues (checker0 (Some frame_gaps))
        [Columns_with_more_than (Finite 50) [''a''], Duplicate_rows_found 1] store_after_first_run"
    by (simp add: store_after_second_run_def run2)
  have i: "issues_found report_gaps = issues (checker0 (Some frame_gaps))"
    by (simp add: report_gaps_def issues_checker0)
  have a: "fst (run_all_checks None (1 / 2) (checker0 (Some frame_gaps)) store0) = Inr report_gaps"
    by (simp add: run1)
  have b: "fst (run_all_checks None (1 / 2) (checker0 (Some frame_gaps)) store_after_first_run) =
     Inr report_gaps"
    by (simp add: run2)
  have c: "lists store_after_first_run (issues_found report_gaps) =
     [Columns_with_more_than (Finite 50) [''a''], Duplicate_rows_found 1]"
    by (simp add: i s1 lists_add_issues lists_store0)
  have d: "lists store_after_second_run (issues_found report_gaps) =
     [Columns_with_more_than (Finite 50) [''a''], Duplicate_rows_found 1,
      Columns_with_more_than (Finite 50) [''a''], Duplicate_rows_found 1]"
    by (simp add: i s2 lists_add_issues c[unfolded i])
  show ?thesis by (intro conjI a b c d)
qed

text \<open>
  C3 as amended: when \<open>run_all_checks\<close> returns a report on a checker, the next call on
  the same checker with the same schema and threshold returns too, with the same
  \<open>validation_passed\<close>, the same \<open>detailed_results\<close> and the same \<open>issues_found\<close> list
  object. Each call appends the messages of its failing checks to that list, so the
  content seen at the second return is the content seen at the first followed by the same
  messages once more; the two contents agree iff the checker has no frame or every check
  passed.
\<close>

theorem run_all_checks_repeated:
  "run_all_checks et t c \<sigma> = (Inr r, \<sigma>1) \<Longrightarrow>
     issues_found r = issues c \<and>
     lists \<sigma>1 (issues_found r) = lists \<sigma> (issues_found r) @ new_issues c (detailed_results r) \<and>
     (\<exists>\<sigma>2. run_all_checks et t c \<sigma>1 = (Inr r, \<sigma>2) \<and>
        lists \<sigma>2 (issues_found r) =
          lists \<sigma>1 (issues_found r) @ new_issues c (detailed_results r)) \<and>
     (new_issues c (detailed_results r) = [] \<longleftrightarrow> (data c = None \<or> validation_passed r))"
proof -
  assume run: "run_all_checks et t c \<sigma> = (Inr r, \<sigma>1)"
  from run_all_checks_report[OF run]
  have v: "validation_passed r = all_passed (detailed_results r)" and i: "issues_found r = issues c"
    by simp_all
  from run_all_checks_log[OF run]
  have 1: "lists \<sigma>1 (issues_found r) = lists \<sigma> (issues_found r) @ new_issues c (detailed_results r)"
    by (simp add: i lists_add_issues)
  from run_all_checks_again[OF run]
  have 2: "\<exists>\<sigma>2. run_all_checks et t c \<sigma>1 = (Inr r, \<sigma>2) \<and>
        lists \<sigma>2 (issues_found r) =
          lists \<sigma>1 (issues_found r) @ new_issues c (detailed_results r)"
    by (simp add: i lists_add_issues)
  have 3: "new_issues c (detailed_results r) = [] \<longleftrightarrow> (data c = None \<or> validation_passed r)"
    by (simp add: new_issues_empty v)
  from i 1 2 3 show ?thesis by blast
qed

theorem run_all_checks_repeated_witness:
  "run_all_checks None (1 / 2) (checker0 (Some frame_posts)) store0 = (Inr report_posts, store0) \<and>
   (\<exists>\<sigma>2. run_all_checks None (1 / 2) (checker0 (Some frame_posts)) store0 = (Inr report_posts, \<sigma>2) \<and>
      lists \<sigma>2 (issues_found report_posts) =
        lists store0 (issues_found report_posts)
        @ new_issues (checker0 (Some frame_posts)) (detailed_results report_posts)) \<and>
   new_issues (checker0 (Some frame_posts)) (detailed_results report_posts) = []"
proof -
  note inst = run_all_checks_repeated[OF run_posts]
  have a: "validation_passed report_posts" by (simp add: report_posts_def)
  from inst a have b: "new_issues (checker0 (Some frame_posts)) (detailed_results report_posts) = []"
    by blast
  from inst have c: "\<exists>\<sigma>2. run_all_checks None (1 / 2) (checker0 (Some frame_posts)) store0 = (Inr report_posts, \<sigma>2) \<and>
      lists \<sigma>2 (issues_found report_posts) =
        lists store0 (issues_found report_posts)
        @ new_issues (checker0 (Some frame_posts)) (detailed_results report_posts)"
    by blast
  show ?thesis by (intro conjI run_posts b c)
qed

text \<open>
  C8: the claim fails on a checker that has no frame (\<open>DataQualityChecker()\<close>): each check
  then returns \<open>passed = False\<close> with "No data provided" before it reaches the append,
  and the log stays as it was.
\<close>

theorem no_data_not_logged_counterexample:
  "check_empty_dataset (checker0 None) store0 =
     (Inr \<lparr>passed = False, message = No_data_provided, details = Row_count 0\<rparr>, store0) \<and>
   lists store0 (issues (checker0 None)) = []"
  by (simp add: check_empty_dataset_def checker0_def DataQualityChecker_def lists_store0)

text \<open>
  C8 as amended: for each of the four checks, on a checker bound to a frame, a check that
  returns \<open>passed = False\<close> appends its message to the end of the checker's issue log, and a
  check that passes leaves the store unchanged; on a checker without a frame the check
  returns \<open>passed = False\<close> with "No data provided" and leaves the store unchanged; a check
  that raises leaves the store unchanged. No check removes or changes an earlier entry
  (the class has no operation that resets the log).
\<close>

theorem failing_check_is_logged:
  "check \<in> {check_empty_dataset, check_missing_values t, check_duplicates, check_data_types et} \<Longrightarrow>
   check c \<sigma> = (res, \<sigma>') \<Longrightarrow>
     (case res of
        Inl e \<Rightarrow> \<sigma>' = \<sigma>
      | Inr out \<Rightarrow>
          \<sigma>' = (if data c \<noteq> None \<and> \<not> passed out then issues_append c (message out) \<sigma> else \<sigma>) \<and>
          lists \<sigma>' (issues c) =
            lists \<sigma> (issues c) @ (if data c \<noteq> None \<and> \<not> passed out then [message out] else []) \<and>
          (data c = None \<longrightarrow> \<not> passed out \<and> message out = No_data_provided))"
proof -
  assume mem: "check \<in> {check_empty_dataset, check_missing_values t, check_duplicates, check_data_types et}"
    and run: "check c \<sigma> = (res, \<sigma>')"
  have eff: "case res of Inl e \<Rightarrow> \<sigma>' = \<sigma> | Inr out \<Rightarrow> \<sigma>' = effect c out \<sigma>"
    using mem run
      check_empty_dataset_effect[of c \<sigma> res \<sigma>'] check_missing_values_effect[of t c \<sigma> res \<sigma>']
      check_duplicates_effect[of c \<sigma> res \<sigma>'] check_data_types_effect[of et c \<sigma> res \<sigma>']
    by auto
  have nodata: "data c = None \<longrightarrow> \<not> passed out \<and> message out = No_data_provided"
    if "res = Inr out" for out
    using mem run that
    by (auto simp: check_defs split: option.splits)
  show ?thesis
  proof (cases res)
    case (Inl e)
    with eff show ?thesis by simp
  next
    case (Inr out)
    with eff have s: "\<sigma>' = effect c out \<sigma>" by simp
    from nodata[OF Inr] s Inr show ?thesis
      by (simp add: effect_def issues_append_def)
  qed
qed

theorem failing_check_is_logged_witness:
  "check_duplicates (checker0 (Some frame_gaps)) store0 =
     (Inr \<lparr>passed = False, message = Duplicate_rows_found 1, details = Duplicate_rows 1\<rparr>,
      issues_append (checker0 (Some frame_gaps)) (Duplicate_rows_found 1) store0) \<and>
   lists (issues_append (checker0 (Some frame_gaps)) (Duplicate_rows_found 1) store0)
     (issues (checker0 (Some frame_gaps))) = [Duplicate_rows_found 1]"
proof -
  have run: "check_duplicates (checker0 (Some frame_gaps)) store0 =
     (Inr \<lparr>passed = False, message = Duplicate_rows_found 1, details = Duplicate_rows 1\<rparr>,
      issues_append (checker0 (Some frame_gaps)) (Duplicate_rows_found 1) store0)"
    by (simp add: check_defs duplicated_gaps example_defs Let_def)
  have mem: "check_duplicates \<in>
      {check_empty_dataset, check_missing_values (1 / 2), check_duplicates, check_data_types []}"
    by simp
  from failing_check_is_logged[OF mem run]
  have "lists (issues_append (checker0 (Some frame_gaps)) (Duplicate_rows_found 1) store0)
     (issues (checker0 (Some frame_gaps))) =
       lists store0 (issues (checker0 (Some frame_gaps))) @ [Duplicate_rows_found 1]"
    by (simp add: checker0_def DataQualityChecker_def)
  then have b: "lists (issues_append (checker0 (Some frame_gaps)) (Duplicate_rows_found 1) store0)
     (issues (checker0 (Some frame_gaps))) = [Duplicate_rows_found 1]"
    by (simp add: lists_store0)
  show ?thesis by (intro conjI run b)
qed

text \<open>
  C7: on a checker bound to a frame, \<open>check_missing_values\<close> returns; it reports the
  columns whose missing fraction exceeds the threshold, and it passes iff no column
  exceeds it. The missing fraction of a column is the float64 that the code computes, the
  count of missing cells divided by the row count, and the comparison with the threshold
  is strict: a column whose fraction is exactly \<open>t\<close> does not exceed \<open>t\<close>, and a column
  with a finite fraction \<open>q\<close> exceeds \<open>t\<close> iff \<open>t < q\<close>. In a frame of at least one and
  fewer than \<open>2 ^ 53\<close> rows the fraction is the quotient rounded to float64, and with
  \<open>t = 0\<close> a column exceeds iff it holds a missing cell.
\<close>

theorem missing_values_threshold:
  "data c = Some df \<Longrightarrow>
     (\<exists>out \<sigma>'. check_missing_values t c \<sigma> = (Inr out, \<sigma>') \<and>
        passed out = (\<forall>(l, col)\<in>set (columns df). \<not> exceeds t (missing_fraction df col)) \<and>
        message out =
          Columns_with_more_than (percent t)
            (map fst (filter (\<lambda>(l, col). exceeds t (missing_fraction df col)) (columns df)))) \<and>
     (\<forall>(l, col)\<in>set (columns df).
        (missing_fraction df col = Finite t \<longrightarrow> \<not> exceeds t (missing_fraction df col)) \<and>
        (\<forall>q. missing_fraction df col = Finite q \<longrightarrow>
           exceeds t (missing_fraction df col) = (t < q)) \<and>
        (0 < nrows df \<and> nrows df < 2 ^ 53 \<and> length (cells col) = nrows df \<longrightarrow>
           missing_fraction df col = round64 (of_nat (isnull_sum col) / of_nat (nrows df)) \<and>
           exceeds 0 (missing_fraction df col) = (\<exists>v\<in>set (cells col). isnull v)))"
proof -
  assume d: "data c = Some df"
  have 1: "\<exists>out \<sigma>'. check_missing_values t c \<sigma> = (Inr out, \<sigma>') \<and>
        passed out = (\<forall>(l, col)\<in>set (columns df). \<not> exceeds t (missing_fraction df col)) \<and>
        message out =
          Columns_with_more_than (percent t)
            (map fst (filter (\<lambda>(l, col). exceeds t (missing_fraction df col)) (columns df)))"
    using d problematic_columns_empty[of t df]
    by (simp add: check_missing_values_def Let_def problematic_columns_labels)
  have 2: "(missing_fraction df col = Finite t \<longrightarrow> \<not> exceeds t (missing_fraction df col)) \<and>
        (\<forall>q. missing_fraction df col = Finite q \<longrightarrow>
           exceeds t (missing_fraction df col) = (t < q))" for col
    by (simp add: exceeds_def)
  have 3: "missing_fraction df col = round64 (of_nat (isnull_sum col) / of_nat (nrows df)) \<and>
           exceeds 0 (missing_fraction df col) = (\<exists>v\<in>set (cells col). isnull v)"
    if "0 < nrows df \<and> nrows df < 2 ^ 53 \<and> length (cells col) = nrows df" for col
    using that missing_fraction_rounds[of df col] exceeds_zero_fraction[of df col] by simp
  from 1 2 3 show ?thesis by blast
qed

theorem missing_values_threshold_witness:
  "check_missing_values (1 / 2) (checker0 (Some frame_quarters)) store0 =
     (Inr \<lparr>passed = False, message = Columns_with_more_than (Finite 50) [''y''],
           details = Columns_with_issues [(''y'', Finite (3 / 4))]\<rparr>,
      issues_append (checker0 (Some frame_quarters)) (Columns_with_more_than (Finite 50) [''y'']) store0) \<and>
   check_missing_values (1 / 2) (checker0 (Some frame_halves)) store0 =
     (Inr \<lparr>passed = True, message = Columns_with_more_than (Finite 50) [],
           details = Columns_with_issues []\<rparr>,
      store0) \<and>
   missing_fraction frame_quarters
     \<lparr>dtype = ''object'', cells = [PNone, PNone, PStr ''a'', PStr ''b'']\<rparr> = Finite (1 / 2) \<and>
   \<not> exceeds (1 / 2) (missing_fraction frame_quarters
         \<lparr>dtype = ''object'', cells = [PNone, PNone, PStr ''a'', PStr ''b'']\<rparr>) \<and>
   exceeds (1 / 2) (missing_fraction frame_quarters
         \<lparr>dtype = ''object'', cells = [PNone, PNone, PNone, PStr ''c'']\<rparr>) \<and>
   exceeds 0 (missing_fraction frame_quarters
         \<lparr>dtype = ''object'', cells = [PNone, PNone, PStr ''a'', PStr ''b'']\<rparr>) \<and>
   missing_fraction frame_thirds
     \<lparr>dtype = ''object'', cells = [PNone, PStr ''a'', PStr ''b'']\<rparr> =
     Finite (6004799503160661 / 18014398509481984) \<and>
   \<not> exceeds (6004799503160661 / 18014398509481984) (missing_fraction frame_thirds
         \<lparr>dtype = ''object'', cells = [PNone, PStr ''a'', PStr ''b'']\<rparr>) \<and>
   check_missing_values (6004799503160661 / 18014398509481984) (checker0 (Some frame_thirds)) store0 =
     (Inr \<lparr>passed = True,
           message = Columns_with_more_than (Finite (2345624805922133 / 70368744177664)) [],
           details = Columns_with_issues []\<rparr>,
      store0)"
proof -
  have run: "check_missing_values (1 / 2) (checker0 (Some frame_quarters)) store0 =
     (Inr \<lparr>passed = False, message = Columns_with_more_than (Finite 50) [''y''],
           details = Columns_with_issues [(''y'', Finite (3 / 4))]\<rparr>,
      issues_append (checker0 (Some frame_quarters)) (Columns_with_more_than (Finite 50) [''y'']) store0)"
    by (rule check_missing_quarters)
  have d: "data (checker0 (Some frame_quarters)) = Some frame_quarters"
    by (simp add: checker0_def DataQualityChecker_def)
  have d3: "data (checker0 (Some frame_thirds)) = Some frame_thirds"
    by (simp add: checker0_def DataQualityChecker_def)
  have n: "0 < nrows frame_quarters \<and> nrows frame_quarters < 2 ^ 53 \<and>
      length (cells \<lparr>dtype = ''object'', cells = [PNone, PNone, PStr ''a'', PStr ''b'']\<rparr>) =
        nrows frame_quarters"
    by (simp add: frame_quarters_def)
  have x: "(''x'', \<lparr>dtype = ''object'', cells = [PNone, PNone, PStr ''a'', PStr ''b'']\<rparr>)
      \<in> set (columns frame_quarters)"
    by (simp add: frame_quarters_def)
  have y: "(''y'', \<lparr>dtype = ''object'', cells = [PNone, PNone, PNone, PStr ''c'']\<rparr>)
      \<in> set (columns frame_quarters)"
    by (simp add: frame_quarters_def)
  have z: "(''z'', \<lparr>dtype = ''object'', cells = [PNone, PStr ''a'', PStr ''b'']\<rparr>)
      \<in> set (columns frame_thirds)"
    by (simp add: frame_thirds_def)
  note inst = missing_values_threshold[OF d, of "1 / 2" store0]
  note inst3 = missing_values_threshold[OF d3, of "6004799503160661 / 18014398509481984" store0]
  from inst x fraction_x have a: "\<not> exceeds (1 / 2) (missing_fraction frame_quarters
         \<lparr>dtype = ''object'', cells = [PNone, PNone, PStr ''a'', PStr ''b'']\<rparr>)"
    by blast
  from inst y fraction_y have "exceeds (1 / 2) (missing_fraction frame_quarters
         \<lparr>dtype = ''object'', cells = [PNone, PNone, PNone, PStr ''c'']\<rparr>) = ((1 / 2 :: rat) < 3 / 4)"
    by blast
  then have b: "exceeds (1 / 2) (missing_fraction frame_quarters
         \<lparr>dtype = ''object'', cells = [PNone, PNone, PNone, PStr ''c'']\<rparr>)"
    by simp
  from inst n x have "exceeds 0 (missing_fraction frame_quarters
         \<lparr>dtype = ''object'', cells = [PNone, PNone, PStr ''a'', PStr ''b'']\<rparr>) =
       (\<exists>v\<in>set (cells \<lparr>dtype = ''object'', cells = [PNone, PNone, PStr ''a'', PStr ''b'']\<rparr>). isnull v)"
    by blast
  then have c: "exceeds 0 (missing_fraction frame_quarters
         \<lparr>dtype = ''object'', cells = [PNone, PNone, PStr ''a'', PStr ''b'']\<rparr>)"
    by (simp add: isnull_def)
  from inst3 z fraction_z
  have e: "\<not> exceeds (6004799503160661 / 18014398509481984) (missing_fraction frame_thirds
         \<lparr>dtype = ''object'', cells = [PNone, PStr ''a'', PStr ''b'']\<rparr>)"
    by blast
  show ?thesis
    by (intro conjI run check_missing_halves fraction_x a b c fraction_z e check_missing_thirds)
qed

text \<open>
  C6: the claim fails where it speaks of the runtime type. \<open>validate_dict\<close> tests
  \<open>isinstance\<close>, and a \<open>bool\<close> is an instance of \<open>int\<close>: the record \<open>{humidity: True}\<close> is
  valid for the schema \<open>{humidity: int}\<close> although the type of \<open>True\<close> is \<open>bool\<close>.
\<close>

theorem bool_passes_as_int_counterexample:
  "type_of (PBool True) \<noteq> TInt \<and>
   validate_dict [(''humidity'', PBool True)] [(''humidity'', Type TInt)] =
     (True, \<lparr>errors = None, fields_validated = 1, fields_passed = 1\<rparr>)"
  by (simp add: validate_dict_def issubclass_def)

text \<open>
  C6 as amended: for a schema (a dict, so its field names are distinct), \<open>validate_dict\<close>
  gives each field of the schema that is absent from the record the error
  "Missing required field: f", each field whose value is not an instance of the expected
  type or of one of the expected types (\<open>isinstance\<close>, under which a \<open>bool\<close> is an \<open>int\<close>) a
  type-mismatch error, and no other field an error; \<open>is_valid\<close> holds iff there are no
  errors, \<open>errors\<close> is then \<open>None\<close>, and \<open>fields_validated\<close> is the size of the schema.
\<close>

theorem validate_dict_errors:
  "distinct (map fst schema) \<Longrightarrow> validate_dict d schema = (is_valid, dets) \<Longrightarrow>
     (\<forall>(f, e)\<in>set schema.
        error_at dets f =
          (case map_of d f of
             None \<Rightarrow> Some (''Missing required field: '' @ f)
           | Some v \<Rightarrow> if isinstance v e then None else Some (mismatch_message e v))) \<and>
     (\<forall>f. f \<notin> set (map fst schema) \<longrightarrow> error_at dets f = None) \<and>
     is_valid = (errors dets = None) \<and>
     is_valid = (\<forall>f. error_at dets f = None) \<and>
     fields_validated dets = int (length schema)"
proof -
  assume dist: "distinct (map fst schema)" and run: "validate_dict d schema = (is_valid, dets)"
  define errs where "errs = validate_fields d schema []"
  from run have v: "is_valid = (errs = [])"
    and e: "errors dets = (if errs \<noteq> [] then Some errs else None)"
    and n: "fields_validated dets = int (length schema)"
    by (auto simp: validate_dict_def Let_def errs_def)
  have at: "error_at dets f = map_of errs f" for f
    by (simp add: error_at_def e)
  have m: "map_of errs f = (case map_of schema f of None \<Rightarrow> None | Some e \<Rightarrow> field_error d f e)" for f
    unfolding errs_def map_of_validate_fields[OF dist]
    by (simp split: option.splits)
  have 1: "error_at dets f =
          (case map_of d f of
             None \<Rightarrow> Some (''Missing required field: '' @ f)
           | Some v \<Rightarrow> if isinstance v e then None else Some (mismatch_message e v))"
    if "(f, e) \<in> set schema" for f e
  proof -
    from that dist have "map_of schema f = Some e" by simp
    then show ?thesis by (simp add: at m field_error_def)
  qed
  have 2: "error_at dets f = None" if "f \<notin> set (map fst schema)" for f
  proof -
    from that have "map_of schema f = None" by (simp add: map_of_eq_None_iff)
    then show ?thesis by (simp add: at m)
  qed
  have 3: "is_valid = (errors dets = None)" by (simp add: v e)
  have "distinct (map fst errs)"
    unfolding errs_def by (rule distinct_validate_fields) simp
  then have 4: "is_valid = (\<forall>f. error_at dets f = None)"
    by (simp add: v at map_of_Nil_iff)
  from 1 2 3 4 n show ?thesis by blast
qed

theorem validate_dict_errors_witness:
  "validate_dict [(''city'', PStr ''London''), (''humidity'', PInt 60)]
     [(''city'', Type TStr), (''humidity'', Type TInt)] =
     (True, \<lparr>errors = None, fields_validated = 2, fields_passed = 2\<rparr>) \<and>
   validate_dict [(''city'', PStr ''London'')]
     [(''city'', Type TStr), (''humidity'', Type TInt)] =
     (False, \<lparr>errors = Some [(''humidity'', ''Missing required field: humidity'')],
              fields_validated = 2, fields_passed = 1\<rparr>) \<and>
   error_at \<lparr>errors = Some [(''humidity'', ''Missing required field: humidity'')],
              fields_validated = 2, fields_passed = 1\<rparr> ''humidity'' =
     Some ''Missing required field: humidity'' \<and>
   error_at \<lparr>errors = Some [(''humidity'', ''Missing required field: humidity'')],
              fields_validated = 2, fields_passed = 1\<rparr> ''city'' = None"
proof -
  have dist: "distinct (map fst [(''city'', Type TStr), (''humidity'', Type TInt)])"
    by simp
  have run1: "validate_dict [(''city'', PStr ''London''), (''humidity'', PInt 60)]
     [(''city'', Type TStr), (''humidity'', Type TInt)] =
     (True, \<lparr>errors = None, fields_validated = 2, fields_passed = 2\<rparr>)"
    by (simp add: validate_dict_def issubclass_def)
  have run2: "validate_dict [(''city'', PStr ''London'')]
     [(''city'', Type TStr), (''humidity'', Type TInt)] =
     (False, \<lparr>errors = Some [(''humidity'', ''Missing required field: humidity'')],
              fields_validated = 2, fields_passed = 1\<rparr>)"
    by (simp add: validate_dict_def issubclass_def)
  note inst = validate_dict_errors[OF dist run2]
  have h: "(''humidity'', Type TInt) \<in> set [(''city'', Type TStr), (''humidity'', Type TInt)]"
    and c: "(''city'', Type TStr) \<in> set [(''city'', Type TStr), (''humidity'', Type TInt)]"
    by simp_all
  from inst h have "error_at \<lparr>errors = Some [(''humidity'', ''Missing required field: humidity'')],
              fields_validated = 2, fields_passed = 1\<rparr> ''humidity'' =
          (case map_of [(''city'', PStr ''London'')] ''humidity'' of
             None \<Rightarrow> Some (''Missing required field: '' @ ''humidity'')
           | Some v \<Rightarrow> if isinstance v (Type TInt) then None else Some (mismatch_message (Type TInt) v))"
    by blast
  then have a: "error_at \<lparr>errors = Some [(''humidity'', ''Missing required field: humidity'')],
              fields_validated = 2, fields_passed = 1\<rparr> ''humidity'' =
     Some ''Missing required field: humidity''"
    by simp
  from inst c have "error_at \<lparr>errors = Some [(''humidity'', ''Missing required field: humidity'')],
              fields_validated = 2, fields_passed = 1\<rparr> ''city'' =
          (case map_of [(''city'', PStr ''London'')] ''city'' of
             None \<Rightarrow> Some (''Missing required field: '' @ ''city'')
           | Some v \<Rightarrow> if isinstance v (Type TStr) then None else Some (mismatch_message (Type TStr) v))"
    by blast
  then have b: "error_at \<lparr>errors = Some [(''humidity'', ''Missing required field: humidity'')],
              fields_validated = 2, fields_passed = 1\<rparr> ''city'' = None"
    by (simp add: issubclass_def)
  show ?thesis by (intro conjI run1 run2 a b)
qed

text \<open>
  C4: a tabular entry point that is given \<open>None\<close> or a frame without rows returns the
  failed result \<open>{'validation_passed': False, 'details': 'Empty or None DataFrame
  provided', 'records_validated': 0}\<close>, and \<open>validate_weather_data\<close> given \<open>None\<close> or \<open>{}\<close>
  returns \<open>(False, {'error': 'Empty or None weather data'})\<close>. Neither constructs a
  checker nor stores a result: the store and the validator are as before.
\<close>

theorem empty_input_short_circuits:
  "((arg = PyNone \<or> (\<exists>df. arg = PyFrame df \<and> nrows df = 0)) \<longrightarrow>
      validate_cryptocurrencies_data arg v \<sigma> =
        (Inr (Failed ''Empty or None DataFrame provided'' 0), v, \<sigma>) \<and>
      validate_posts_data arg v \<sigma> =
        (Inr (Failed ''Empty or None DataFrame provided'' 0), v, \<sigma>) \<and>
      get_validation_passed (Failed ''Empty or None DataFrame provided'' 0) = False \<and>
      records_validated (Failed ''Empty or None DataFrame provided'' 0) = 0) \<and>
   ((w = PyNone \<or> w = PyDict []) \<longrightarrow>
      validate_weather_data w v \<sigma> =
        (Inr (False, Error_details ''Empty or None weather data''), v, \<sigma>))"
  by (auto simp: validate_cryptocurrencies_data_def validate_posts_data_def
      validate_dataframe_def validate_weather_data_def df_empty_def)

theorem empty_input_short_circuits_witness:
  "validate_cryptocurrencies_data (PyFrame frame_empty) APIValidator empty_store =
     (Inr (Failed ''Empty or None DataFrame provided'' 0), APIValidator, empty_store) \<and>
   validate_posts_data (PyFrame frame_empty) APIValidator empty_store =
     (Inr (Failed ''Empty or None DataFrame provided'' 0), APIValidator, empty_store) \<and>
   validate_weather_data (PyDict []) APIValidator empty_store =
     (Inr (False, Error_details ''Empty or None weather data''), APIValidator, empty_store)"
proof -
  have f: "PyFrame frame_empty = PyNone \<or> (\<exists>df. PyFrame frame_empty = PyFrame df \<and> nrows df = 0)"
    by (simp add: frame_empty_def)
  have d: "PyDict [] = PyNone \<or> PyDict [] = PyDict []"
    by simp
  note inst = empty_input_short_circuits[of "PyFrame frame_empty" APIValidator empty_store "PyDict []"]
  from inst f have a: "validate_cryptocurrencies_data (PyFrame frame_empty) APIValidator empty_store =
     (Inr (Failed ''Empty or None DataFrame provided'' 0), APIValidator, empty_store)"
    by blast
  from inst f have b: "validate_posts_data (PyFrame frame_empty) APIValidator empty_store =
     (Inr (Failed ''Empty or None DataFrame provided'' 0), APIValidator, empty_store)"
    by blast
  from inst d have c: "validate_weather_data (PyDict []) APIValidator empty_store =
     (Inr (False, Error_details ''Empty or None weather data''), APIValidator, empty_store)"
    by blast
  show ?thesis by (intro conjI a b c)
qed

text \<open>
  C5: \<open>get_validation_summary\<close> counts a stored result as passed iff
  \<open>result.get('validation_passed', False)\<close> is true. The tabular entry points store the
  whole report, so their entries are counted by their verdict. \<open>validate_weather_data\<close>
  stores only the details, which have no \<open>validation_passed\<close>: a weather validation is
  counted as failed whatever its verdict was.
\<close>

theorem weather_counted_as_failed:
  "d \<noteq> [] \<Longrightarrow> validate_weather_data (PyDict d) v \<sigma> = (res, v', \<sigma>') \<Longrightarrow>
     (\<exists>ok dets. res = Inr (ok, Validation_details dets) \<and>
        validate_dict d weather_schema = (ok, dets) \<and>
        map_of (results v') ''weather_data'' = Some (Weather_entry dets) \<and>
        \<not> stored_passed (Weather_entry dets)) \<and>
     passed_count (get_validation_summary v') =
       length (filter stored_passed (map snd (results v'))) \<and>
     failed_count (get_validation_summary v') =
       length (filter (\<lambda>r. \<not> stored_passed r) (map snd (results v'))) \<and>
     total_validations (get_validation_summary v') = length (results v') \<and>
     summary_details (get_validation_summary v') = results v'"
proof -
  assume d: "d \<noteq> []" and run: "validate_weather_data (PyDict d) v \<sigma> = (res, v', \<sigma>')"
  obtain ok dets where vd: "validate_dict d weather_schema = (ok, dets)"
    by (cases "validate_dict d weather_schema")
  from d run vd have 1: "res = Inr (ok, Validation_details dets)"
    and 2: "map_of (results v') ''weather_data'' = Some (Weather_entry dets)"
    by (auto simp: validate_weather_data_def update_conv' split: prod.splits)
  have 3: "\<not> stored_passed (Weather_entry dets)" by simp
  from tally_counts[of "results v'"
      "\<lparr>total_validations = length (results v'), passed_count = 0, failed_count = 0,
        summary_details = results v'\<rparr>"]
  have 4: "passed_count (get_validation_summary v') =
       length (filter stored_passed (map snd (results v'))) \<and>
     failed_count (get_validation_summary v') =
       length (filter (\<lambda>r. \<not> stored_passed r) (map snd (results v'))) \<and>
     total_validations (get_validation_summary v') = length (results v') \<and>
     summary_details (get_validation_summary v') = results v'"
    by (simp add: get_validation_summary_def)
  from 1 2 3 4 vd show ?thesis by blast
qed

theorem weather_counted_as_failed_witness:
  "validate_weather_data (PyDict weather_ok) APIValidator empty_store =
     (Inr (True, Validation_details details_ok),
      \<lparr>results = [(''weather_data'', Weather_entry details_ok)]\<rparr>,
      snd (DataQualityChecker None empty_store)) \<and>
   passed_count (get_validation_summary \<lparr>results = [(''weather_data'', Weather_entry details_ok)]\<rparr>) = 0 \<and>
   failed_count (get_validation_summary \<lparr>results = [(''weather_data'', Weather_entry details_ok)]\<rparr>) = 1 \<and>
   total_validations (get_validation_summary \<lparr>results = [(''weather_data'', Weather_entry details_ok)]\<rparr>) = 1"
proof -
  have ne: "weather_ok \<noteq> []" by (simp add: weather_ok_def)
  note inst = weather_counted_as_failed[OF ne validate_weather_ok]
  from inst have p: "passed_count (get_validation_summary \<lparr>results = [(''weather_data'', Weather_entry details_ok)]\<rparr>) =
      length (filter stored_passed (map snd (results \<lparr>results = [(''weather_data'', Weather_entry details_ok)]\<rparr>)))"
    by blast
  from inst have f: "failed_count (get_validation_summary \<lparr>results = [(''weather_data'', Weather_entry details_ok)]\<rparr>) =
      length (filter (\<lambda>r. \<not> stored_passed r) (map snd (results \<lparr>results = [(''weather_data'', Weather_entry details_ok)]\<rparr>)))"
    by blast
  from inst have t: "total_validations (get_validation_summary \<lparr>results = [(''weather_data'', Weather_entry details_ok)]\<rparr>) =
      length (results \<lparr>results = [(''weather_data'', Weather_entry details_ok)]\<rparr>)"
    by blast
  have a: "passed_count (get_validation_summary \<lparr>results = [(''weather_data'', Weather_entry details_ok)]\<rparr>) = 0"
    unfolding p by simp
  have b: "failed_count (get_validation_summary \<lparr>results = [(''weather_data'', Weather_entry details_ok)]\<rparr>) = 1"
    unfolding f by simp
  have c: "total_validations (get_validation_summary \<lparr>results = [(''weather_data'', Weather_entry details_ok)]\<rparr>) = 1"
    unfolding t by simp
  show ?thesis by (intro conjI validate_weather_ok a b c)
qed

text \<open>
  C1: the claim fails where the guard before the \<open>try\<close> raises. In the tabular entry
  points the test \<open>df is None or df.empty\<close>, and in \<open>validate_weather_data\<close> the test
  \<open>not weather_data\<close>, stand before the \<open>try\<close>: a dict has no attribute \<open>empty\<close>, and the
  truth value of a DataFrame is a \<open>ValueError\<close>. Both faults reach the caller, also
  through \<open>validate_all\<close>.
\<close>

theorem ill_typed_input_faults_counterexample:
  "fst (validate_cryptocurrencies_data (PyDict weather_ok) APIValidator empty_store) =
     Inl (AttributeError (quoted ''dict'' @ '' object has no attribute '' @ quoted ''empty'')) \<and>
   fst (validate_weather_data (PyFrame frame_posts) APIValidator empty_store) =
     Inl (ValueError ''The truth value of a DataFrame is ambiguous. Use a.empty, a.bool(), a.item(), a.any() or a.all().'') \<and>
   fst (validate_all PyNone (PyDict weather_ok) PyNone APIValidator empty_store) =
     Inl (AttributeError (quoted ''dict'' @ '' object has no attribute '' @ quoted ''empty''))"
  by (simp add: validate_cryptocurrencies_data_def validate_dataframe_def
      validate_weather_data_def validate_all_def Let_def)

text \<open>
  C1 as amended: for every argument on which the guard before the \<open>try\<close> does not itself
  raise (for the weather entry point every object that has a truth value, so anything but
  a DataFrame; for the tabular entry points \<open>None\<close> or an object with an attribute
  \<open>empty\<close>, a DataFrame) each entry point and \<open>validate_all\<close> return a result and never a
  fault. What is raised inside the \<open>try\<close> is caught and converted: when \<open>validate_dict\<close>
  raises, the weather entry point returns \<open>(False, {'error': str(e)})\<close>; when
  \<open>run_all_checks\<close> raises, a tabular entry point returns
  \<open>{'validation_passed': False, 'details': str(e), 'records_validated': 0}\<close>; in both
  cases nothing is stored in the validator.
\<close>

theorem guarded_input_never_faults:
  "has_truth_value w \<Longrightarrow> is_frame_or_none a \<Longrightarrow> is_frame_or_none p \<Longrightarrow>
     (\<exists>r v' \<sigma>'. validate_weather_data w v \<sigma> = (Inr r, v', \<sigma>')) \<and>
     (\<exists>r v' \<sigma>'. validate_cryptocurrencies_data a v \<sigma> = (Inr r, v', \<sigma>')) \<and>
     (\<exists>r v' \<sigma>'. validate_posts_data p v \<sigma> = (Inr r, v', \<sigma>')) \<and>
     (\<exists>r v' \<sigma>'. validate_all w a p v \<sigma> = (Inr r, v', \<sigma>')) \<and>
     (\<forall>e.
        truth w = Inr True \<and> validate_dict_arg w weather_schema = Inl e \<longrightarrow>
        validate_weather_data w v \<sigma> =
          (Inr (False, Error_details (str_exn e)), v, snd (DataQualityChecker None \<sigma>))) \<and>
     (\<forall>df e \<sigma>''.
        \<not> df_empty df \<and>
        run_all_checks (Some crypto_expected_types) (1 / 2)
          (fst (DataQualityChecker (Some df) \<sigma>)) (snd (DataQualityChecker (Some df) \<sigma>)) =
          (Inl e, \<sigma>'') \<longrightarrow>
        validate_cryptocurrencies_data (PyFrame df) v \<sigma> =
          (Inr (Failed (str_exn e) 0), v, \<sigma>'') \<and>
        get_validation_passed (Failed (str_exn e) 0) = False) \<and>
     (\<forall>df e \<sigma>''.
        \<not> df_empty df \<and>
        run_all_checks (Some posts_expected_types) (1 / 2)
          (fst (DataQualityChecker (Some df) \<sigma>)) (snd (DataQualityChecker (Some df) \<sigma>)) =
          (Inl e, \<sigma>'') \<longrightarrow>
        validate_posts_data (PyFrame df) v \<sigma> =
          (Inr (Failed (str_exn e) 0), v, \<sigma>'') \<and>
        get_validation_passed (Failed (str_exn e) 0) = False)"
proof -
  assume w: "has_truth_value w" and a: "is_frame_or_none a" and p: "is_frame_or_none p"
  have 1: "\<exists>r v' \<sigma>'. validate_weather_data w v \<sigma> = (Inr r, v', \<sigma>')"
    by (rule no_fault_returns) (rule validate_weather_data_no_fault[OF w])
  have 2: "\<exists>r v' \<sigma>'. validate_cryptocurrencies_data a v \<sigma> = (Inr r, v', \<sigma>')"
    unfolding validate_cryptocurrencies_data_def
    by (rule no_fault_returns) (rule validate_dataframe_no_fault[OF a])
  have 3: "\<exists>r v' \<sigma>'. validate_posts_data p v \<sigma> = (Inr r, v', \<sigma>')"
    unfolding validate_posts_data_def
    by (rule no_fault_returns) (rule validate_dataframe_no_fault[OF p])
  have 4: "\<exists>r v' \<sigma>'. validate_all w a p v \<sigma> = (Inr r, v', \<sigma>')"
    by (rule no_fault_returns) (rule validate_all_no_fault[OF w a p])
  have 5: "validate_cryptocurrencies_data (PyFrame df) v \<sigma> =
          (Inr (Failed (str_exn e) 0), v, \<sigma>'') \<and>
        get_validation_passed (Failed (str_exn e) 0) = False"
    if "\<not> df_empty df \<and>
        run_all_checks (Some crypto_expected_types) (1 / 2)
          (fst (DataQualityChecker (Some df) \<sigma>)) (snd (DataQualityChecker (Some df) \<sigma>)) =
          (Inl e, \<sigma>'')" for df e \<sigma>''
    using that validate_dataframe_caught[of df crypto_expected_types \<sigma> e \<sigma>'' "''cryptocurrencies_data''" v]
    by (simp add: validate_cryptocurrencies_data_def)
  have 6: "validate_posts_data (PyFrame df) v \<sigma> =
          (Inr (Failed (str_exn e) 0), v, \<sigma>'') \<and>
        get_validation_passed (Failed (str_exn e) 0) = False"
    if "\<not> df_empty df \<and>
        run_all_checks (Some posts_expected_types) (1 / 2)
          (fst (DataQualityChecker (Some df) \<sigma>)) (snd (DataQualityChecker (Some df) \<sigma>)) =
          (Inl e, \<sigma>'')" for df e \<sigma>''
    using that validate_dataframe_caught[of df posts_expected_types \<sigma> e \<sigma>'' "''posts_data''" v]
    by (simp add: validate_posts_data_def)
  have 7: "validate_weather_data w v \<sigma> =
          (Inr (False, Error_details (str_exn e)), v, snd (DataQualityChecker None \<sigma>))"
    if "truth w = Inr True \<and> validate_dict_arg w weather_schema = Inl e" for e
    using that validate_weather_data_caught[of w e v \<sigma>] by simp
  from 1 2 3 4 5 6 7 show ?thesis by blast
qed

theorem guarded_input_never_faults_witness:
  "validate_weather_data (PyInt 5) APIValidator empty_store =
     (Inr (False, Error_details (''argument of type '' @ quoted ''int'' @ '' is not iterable'')),
      APIValidator, snd (DataQualityChecker None empty_store)) \<and>
   (\<exists>r v' \<sigma>'. validate_all (PyInt 5) (PyFrame frame_lists) (PyFrame frame_posts)
       APIValidator empty_store = (Inr r, v', \<sigma>')) \<and>
   validate_cryptocurrencies_data (PyFrame frame_lists) APIValidator empty_store =
     (Inr (Failed (''unhashable type: '' @ quoted ''list'') 0), APIValidator,
      snd (DataQualityChecker (Some frame_lists) empty_store))"
proof -
  have w: "has_truth_value (PyInt 5)"
    and a: "is_frame_or_none (PyFrame frame_lists)"
    and p: "is_frame_or_none (PyFrame frame_posts)"
    by simp_all
  note inst = guarded_input_never_faults[OF w a p, of APIValidator empty_store]
  have ne: "\<not> df_empty frame_lists" by (simp add: df_empty_def frame_lists_def)
  from inst weather_int_raises
  have "validate_weather_data (PyInt 5) APIValidator empty_store =
     (Inr (False, Error_details (str_exn (not_iterable ''int''))),
      APIValidator, snd (DataQualityChecker None empty_store))"
    by blast
  then have 1: "validate_weather_data (PyInt 5) APIValidator empty_store =
     (Inr (False, Error_details (''argument of type '' @ quoted ''int'' @ '' is not iterable'')),
      APIValidator, snd (DataQualityChecker None empty_store))"
    by (simp add: not_iterable_def)
  from inst have 2: "\<exists>r v' \<sigma>'. validate_all (PyInt 5) (PyFrame frame_lists) (PyFrame frame_posts)
       APIValidator empty_store = (Inr r, v', \<sigma>')"
    by blast
  from inst ne run_lists_raises
  have "validate_cryptocurrencies_data (PyFrame frame_lists) APIValidator empty_store =
     (Inr (Failed (str_exn (TypeError (''unhashable type: '' @ quoted ''list''))) 0), APIValidator,
      snd (DataQualityChecker (Some frame_lists) empty_store))"
    by blast
  then have 3: "validate_cryptocurrencies_data (PyFrame frame_lists) APIValidator empty_store =
     (Inr (Failed (''unhashable type: '' @ quoted ''list'') 0), APIValidator,
      snd (DataQualityChecker (Some frame_lists) empty_store))"
    by simp
  show ?thesis by (intro conjI 1 2 3)
qed

end
